theory Spec2Isabelle
  imports Main
begin

section \<open>Data model of GunSocketClusterWorker.ts\<close>

text \<open>
  A soul is a string. A graph node (\<open>GunNode\<close>) is opaque to the worker and is the type
  parameter \<open>'n\<close>. \<open>GunGraphData\<close> is a JavaScript object from souls to nodes; it is
  modelled as the list of its own properties in enumeration order (the order of
  \<open>for ... in\<close> and of \<open>Object.keys\<close>), a value \<open>None\<close> standing for a property
  that is \<open>null\<close> or \<open>undefined\<close>.
\<close>

type_synonym soul = string

type_synonym 'n GunGraphData = "(soul \<times> 'n option) list"

text \<open>
  A value that the program reads as a string and that may also be undefined (or missing)
  or \<open>null\<close>: the field \<open>'#'\<close> of a message, the field \<open>m\<close> of a login proof, an
  element of a destructured array.
\<close>

datatype js_text = Undefined | Null | Text string

text \<open>
  \<open>GunMsg\<close>: the field \<open>'#'\<close> is \<open>msg_id\<close>, the field \<open>'@'\<close> is \<open>reply_to\<close>.
  Of the other fields, one that is absent, \<open>undefined\<close> or \<open>null\<close> is \<open>None\<close>.
\<close>

record 'n GunMsg =
  msg_id :: js_text
  reply_to :: js_text
  put :: "'n GunGraphData option"
  err :: "string option"
  ok :: "bool option"

text \<open>The value thrown by, or rejecting the promise of, an external collaborator.\<close>

type_synonym js_error = string

text \<open>
  A JavaScript number that holds an integer, or \<open>NaN\<close>. \<open>Num\<close> holds the integer the
  double denotes; arithmetic on it is exact (that of doubles is exact below \<open>2^53\<close>), and
  the infinities are not represented.
\<close>

datatype jsnum = NaN | Num int

record authToken =
  pub :: string
  timestamp :: jsnum

record SCServerSocket =
  sock_id :: string
  authToken :: "authToken option"

text \<open>The two variables of \<open>process.env\<close> that the worker reads.\<close>

record process_env =
  GUN_OWNER_PUB :: "string option"
  SC_AUTH_MAX_DRIFT :: "string option"

text \<open>The packet \<open>{channel, data}\<close> handed to \<open>socket.emit('#publish', ...)\<close>.\<close>

record 'n publish_packet =
  packet_channel :: string
  packet_data :: "'n GunMsg"

text \<open>
  The login request \<open>{pub, proof: {m, s}}\<close> as the client sends it. A \<open>pub\<close> or a
  \<open>proof\<close> that is missing or \<open>null\<close> is \<open>None\<close>. The field \<open>m\<close> of the proof is a
  string, or it is missing or \<open>null\<close>; a proof that is a truthy value other than an
  object has no field \<open>m\<close> either, and an \<open>m\<close> of another type has no method
  \<open>split\<close>: both are read as \<open>Undefined\<close>. The signature \<open>s\<close> and the public key
  are only handed on, to the verifier and to the token.
\<close>

record login_proof =
  proof_m :: js_text
  proof_s :: string

record login_req =
  req_pub :: "string option"
  req_proof :: "login_proof option"

text \<open>
  The request object a middleware receives: its channel, its socket, its \<open>data\<close> (the
  published message, if any) and its field \<open>'#'\<close>.
\<close>

record 'n middleware_req =
  req_channel :: string
  req_socket :: SCServerSocket
  req_data :: "'n GunMsg option"
  req_hash :: js_text

text \<open>The three ways \<open>authenticateLogin\<close> calls \<open>respond\<close>.\<close>

datatype login_response =
    RespondOk
  | RespondError string
  | RespondMessage string

text \<open>
  Everything a handler does besides returning is recorded, in program order, as a list of
  effects: calls of the middleware continuation \<open>next\<close> (with the message of the
  \<open>Error\<close>, if any), of \<open>respond\<close>, of the external adapter, of the external verifier, of
  \<open>exchange.publish\<close>, of \<open>socket.emit('#publish', ...)\<close>, of \<open>socket.setAuthToken\<close>, and
  of \<open>setTimeout\<close> with the effect of its callback.
\<close>

datatype 'n effect =
    Next "string option"
  | Respond login_response
  | AdapterPut "'n GunGraphData"
  | AdapterGet soul
  | VerifyCall login_proof string
  | SetAuthToken authToken
  | ExchangePublish string "'n GunMsg"
  | SocketEmit "'n publish_packet"
  | SetTimeout nat "'n effect"

text \<open>
  The external \<open>GunGraphAdapter\<close>: \<open>get\<close> and \<open>put\<close> return a promise that resolves
  (\<open>Inr\<close>) or rejects (\<open>Inl\<close>). The serialisation helpers are not used by the worker.
\<close>

record 'n GunGraphAdapter =
  adapter_get :: "soul \<Rightarrow> js_error + 'n option"
  adapter_put :: "'n GunGraphData \<Rightarrow> js_error + 'n GunGraphData option"

section \<open>publishDiff\<close>

text \<open>
  JavaScript's \<open>ToString\<close> on a value that is a string, undefined or \<open>null\<close>, as a
  template literal and \<open>parseInt\<close> apply it.
\<close>

definition to_string :: "js_text \<Rightarrow> string" where
  "to_string v = (case v of Undefined \<Rightarrow> ''undefined'' | Null \<Rightarrow> ''null'' | Text s \<Rightarrow> s)"

text \<open>\<open>diff[soul]\<close>: the property's value, \<open>None\<close> when it is missing, null or undefined.\<close>

definition diff_at :: "'n GunGraphData \<Rightarrow> soul \<Rightarrow> 'n option" where
  "diff_at diff soul = (case map_of diff soul of Some (Some nodeDiff) \<Rightarrow> Some nodeDiff | _ \<Rightarrow> None)"

text \<open>The channel \<open>`gun/nodes/${soul}`\<close>.\<close>

definition node_channel :: "soul \<Rightarrow> string" where
  "node_channel soul = ''gun/nodes/'' @ soul"

definition soul_msg :: "js_text \<Rightarrow> soul \<Rightarrow> 'n \<Rightarrow> 'n GunMsg" where
  "soul_msg msgId soul nodeDiff =
     \<lparr>msg_id = Text (to_string msgId @ ''/'' @ soul), reply_to = Undefined,
      put = Some [(soul, Some nodeDiff)], err = None, ok = None\<rparr>"

text \<open>The body of the loop \<open>for (const soul in diff)\<close>, over the keys still to visit.\<close>

fun publishDiff_souls :: "js_text \<Rightarrow> 'n GunGraphData \<Rightarrow> soul list \<Rightarrow> 'n effect list" where
  "publishDiff_souls msgId diff [] = []"
| "publishDiff_souls msgId diff (soul # rest) =
     (if soul = [] then publishDiff_souls msgId diff rest
      else case diff_at diff soul of
             None \<Rightarrow> publishDiff_souls msgId diff rest
           | Some nodeDiff \<Rightarrow>
               ExchangePublish (node_channel soul) (soul_msg msgId soul nodeDiff)
                 # publishDiff_souls msgId diff rest)"

definition publishDiff :: "'n GunMsg \<Rightarrow> 'n effect list" where
  "publishDiff msg =
     (case put msg of
        None \<Rightarrow> []
      | Some diff \<Rightarrow>
          publishDiff_souls (msg_id msg) diff (map fst diff)
            @ [ExchangePublish ''gun/put/diff'' msg])"

section \<open>wrapAdapter\<close>

text \<open>
  The wrapped adapter's \<open>put\<close>: the underlying \<open>put\<close> is called; when its promise
  resolves with a diff that is not falsy and has at least one key, \<open>publishDiff\<close> runs
  on a message with a fresh id (\<open>diffId\<close>, the result of \<open>pseudoRandomText()\<close>). A
  rejection passes through. \<open>get\<close> is the underlying \<open>get\<close>.
\<close>

definition wrapAdapter_put ::
  "'n GunGraphAdapter \<Rightarrow> string \<Rightarrow> 'n GunGraphData \<Rightarrow> (js_error + 'n GunGraphData option) \<times> 'n effect list" where
  "wrapAdapter_put adapter diffId graphData =
     (case adapter_put adapter graphData of
        Inl e \<Rightarrow> (Inl e, [AdapterPut graphData])
      | Inr None \<Rightarrow> (Inr None, [AdapterPut graphData])
      | Inr (Some diff) \<Rightarrow>
          (if length (map fst diff) = 0 then (Inr (Some diff), [AdapterPut graphData])
           else (Inr (Some diff),
                 AdapterPut graphData
                   # publishDiff \<lparr>msg_id = Text diffId, reply_to = Undefined, put = Some diff,
                                  err = None, ok = None\<rparr>)))"

definition wrapAdapter_get :: "'n GunGraphAdapter \<Rightarrow> soul \<Rightarrow> (js_error + 'n option) \<times> 'n effect list" where
  "wrapAdapter_get adapter soul = (adapter_get adapter soul, [AdapterGet soul])"

section \<open>isAdmin, processPut, readNode\<close>

definition isAdmin :: "process_env \<Rightarrow> SCServerSocket \<Rightarrow> bool" where
  "isAdmin env socket =
     (case authToken socket of
        None \<Rightarrow> False
      | Some token \<Rightarrow> Some (pub token) = GUN_OWNER_PUB env)"

definition put_ack :: "string \<Rightarrow> 'n GunMsg \<Rightarrow> string option \<Rightarrow> bool \<Rightarrow> 'n GunMsg" where
  "put_ack msgId msg e success =
     \<lparr>msg_id = Text msgId, reply_to = msg_id msg, put = None, err = e, ok = Some success\<rparr>"

text \<open>
  \<open>msgId\<close> is the result of \<open>pseudoRandomText()\<close> in \<open>processPut\<close>, \<open>diffId\<close> the one
  the wrapped adapter draws if it publishes a diff.
\<close>

definition processPut ::
  "'n GunGraphAdapter \<Rightarrow> string \<Rightarrow> string \<Rightarrow> 'n GunMsg \<Rightarrow> 'n GunMsg \<times> 'n effect list" where
  "processPut adapter msgId diffId msg =
     (case put msg of
        None \<Rightarrow> (put_ack msgId msg None True, [])
      | Some graphData \<Rightarrow>
          (case wrapAdapter_put adapter diffId graphData of
             (Inr diff, effects) \<Rightarrow> (put_ack msgId msg None True, effects)
           | (Inl e, effects) \<Rightarrow> (put_ack msgId msg (Some ''Error saving'') False, effects)))"

definition readNode :: "'n GunGraphAdapter \<Rightarrow> soul \<Rightarrow> (js_error + 'n option) \<times> 'n effect list" where
  "readNode adapter soul = wrapAdapter_get adapter soul"

section \<open>authenticateLogin\<close>

text \<open>\<open>String.prototype.split\<close> with a one-character separator.\<close>

fun split_on :: "char \<Rightarrow> string \<Rightarrow> string list" where
  "split_on sep [] = [[]]"
| "split_on sep (c # cs) =
     (if c = sep then [] # split_on sep cs
      else case split_on sep cs of
             [] \<Rightarrow> [[c]]
           | part # parts \<Rightarrow> (c # part) # parts)"

text \<open>Element \<open>i\<close> of an array destructuring: undefined past the end.\<close>

definition element :: "string list \<Rightarrow> nat \<Rightarrow> js_text" where
  "element xs i = (if i < length xs then Text (xs ! i) else Undefined)"

text \<open>
  \<open>parseInt\<close> is the builtin \<open>s \<mapsto> parseInt(s, 10)\<close>, a parameter of the model like the
  verifier and the adapter: what it skips as white space and how it rounds a long run of
  digits is the engine's business. Its result is a number that holds an integer, or
  \<open>NaN\<close>.

  \<open>(process.env.SC_AUTH_MAX_DRIFT && parseInt(process.env.SC_AUTH_MAX_DRIFT, 10)) || 1000 * 60 * 5\<close>:
  an unset or empty variable, and one that parses to \<open>NaN\<close> or to \<open>0\<close>, are falsy.
\<close>

definition maxDrift :: "(string \<Rightarrow> jsnum) \<Rightarrow> process_env \<Rightarrow> int" where
  "maxDrift parseInt env =
     (case SC_AUTH_MAX_DRIFT env of
        None \<Rightarrow> 1000 * 60 * 5
      | Some v \<Rightarrow>
          (if v = [] then 1000 * 60 * 5
           else case parseInt v of
                  NaN \<Rightarrow> 1000 * 60 * 5
                | Num n \<Rightarrow> if n = 0 then 1000 * 60 * 5 else n))"

text \<open>\<open>Math.abs(now - timestamp)\<close> and \<open>drift > maxDrift\<close>; a comparison with \<open>NaN\<close> is false.\<close>

definition abs_diff :: "int \<Rightarrow> jsnum \<Rightarrow> jsnum" where
  "abs_diff now t = (case t of NaN \<Rightarrow> NaN | Num n \<Rightarrow> Num \<bar>now - n\<bar>)"

definition js_greater :: "jsnum \<Rightarrow> int \<Rightarrow> bool" where
  "js_greater x bound = (case x of NaN \<Rightarrow> False | Num n \<Rightarrow> n > bound)"

text \<open>
  \<open>const [socketId, timestampStr] = m.split('/')\<close> and
  \<open>const timestamp = parseInt(timestampStr, 10)\<close>, for a message \<open>m\<close> that is a string.
\<close>

definition proof_socketId :: "string \<Rightarrow> js_text" where
  "proof_socketId m = element (split_on CHR ''/'' m) 0"

definition proof_timestamp :: "(string \<Rightarrow> jsnum) \<Rightarrow> string \<Rightarrow> jsnum" where
  "proof_timestamp parseInt m = parseInt (to_string (element (split_on CHR ''/'' m) 1))"

text \<open>
  \<open>now\<close> is \<open>new Date().getTime()\<close>; \<open>verify\<close> is the external signature verifier,
  whose promise resolves to a truth value (\<open>Inr\<close>) or rejects (\<open>Inl\<close>). The result is
  the socket afterwards and the effects.

  Inside the \<open>try\<close>, \<open>req.proof.m.split('/')\<close> comes first: when \<open>m\<close> is not a string
  it throws, and the \<open>catch\<close> answers \<open>Invalid login\<close>; nothing else has happened by
  then. The \<open>catch\<close> also takes a rejection of the verifier.
\<close>

definition authenticateLogin ::
  "(string \<Rightarrow> jsnum) \<Rightarrow> process_env \<Rightarrow> int \<Rightarrow> (login_proof \<Rightarrow> string \<Rightarrow> js_error + bool)
     \<Rightarrow> SCServerSocket \<Rightarrow> login_req \<Rightarrow> SCServerSocket \<times> 'n effect list" where
  "authenticateLogin parseInt env now verify socket req =
     (case req_pub req of
        None \<Rightarrow> (socket, [Respond (RespondMessage ''Missing login info'')])
      | Some p \<Rightarrow>
     (if p = [] then (socket, [Respond (RespondMessage ''Missing login info'')])
      else case req_proof req of
        None \<Rightarrow> (socket, [Respond (RespondMessage ''Missing login info'')])
      | Some prf \<Rightarrow>
     (case proof_m prf of
        Undefined \<Rightarrow> (socket, [Respond (RespondMessage ''Invalid login'')])
      | Null \<Rightarrow> (socket, [Respond (RespondMessage ''Invalid login'')])
      | Text m \<Rightarrow>
          (let socketId = proof_socketId m;
               ts = proof_timestamp parseInt m;
               drift = abs_diff now ts
           in if js_greater drift (maxDrift parseInt env)
              then (socket, [Respond (RespondError ''Exceeded max clock drift'')])
              else if socketId = Undefined \<or> socketId = Text [] \<or> socketId \<noteq> Text (sock_id socket)
              then (socket, [Respond (RespondError ''Socket ID doesn't match'')])
              else (case verify prf p of
                      Inl e \<Rightarrow> (socket, [VerifyCall prf p, Respond (RespondMessage ''Invalid login'')])
                    | Inr isVerified \<Rightarrow>
                        (if isVerified
                         then (socket\<lparr>authToken := Some \<lparr>pub = p, timestamp = ts\<rparr>\<rparr>,
                               [VerifyCall prf p, SetAuthToken \<lparr>pub = p, timestamp = ts\<rparr>,
                                Respond RespondOk])
                         else (socket, [VerifyCall prf p, Respond (RespondMessage ''Invalid login'')])))))))"

section \<open>subscribeMiddleware\<close>

text \<open>\<open>channel.replace(/^gun\/nodes\//, '')\<close>.\<close>

definition strip_nodes_prefix :: "string \<Rightarrow> string" where
  "strip_nodes_prefix channel =
     (if take 10 channel = ''gun/nodes/'' then drop 10 channel else channel)"

text \<open>The message the seed emits: the node read, or the error message of a failed read.\<close>

definition seed_msg :: "string \<Rightarrow> soul \<Rightarrow> js_text \<Rightarrow> js_error + 'n option \<Rightarrow> 'n GunMsg" where
  "seed_msg msgId soul reqHash result =
     (case result of
        Inr node \<Rightarrow>
          \<lparr>msg_id = Text msgId, reply_to = Undefined,
           put = (case node of None \<Rightarrow> None | Some n \<Rightarrow> Some [(soul, Some n)]),
           err = None, ok = None\<rparr>
      | Inl e \<Rightarrow>
          \<lparr>msg_id = Text msgId, reply_to = reqHash, put = None,
           err = Some ''Error fetching node'', ok = None\<rparr>)"

text \<open>
  \<open>msgId\<close> is \<open>Math.random().toString(36).slice(2)\<close>. The warning printed on the
  console when the read fails is not recorded.
\<close>

definition subscribeMiddleware ::
  "process_env \<Rightarrow> 'n GunGraphAdapter \<Rightarrow> string \<Rightarrow> 'n middleware_req \<Rightarrow> 'n effect list" where
  "subscribeMiddleware env adapter msgId req =
     (if (req_channel req = ''gun/put'' \<or> req_channel req = ''gun/get'')
          \<and> \<not> isAdmin env (req_socket req)
      then [Next (Some (''You aren't allowed to subscribe to '' @ req_channel req))]
      else let soul = strip_nodes_prefix (req_channel req)
           in if soul = [] \<or> soul = req_channel req then [Next None]
              else (case readNode adapter soul of
                      (result, effects) \<Rightarrow>
                        Next None # effects
                          @ [SetTimeout 25
                               (SocketEmit \<lparr>packet_channel = req_channel req,
                                            packet_data = seed_msg msgId soul (req_hash req) result\<rparr>)]))"

section \<open>publishInMiddleware\<close>

definition publishInMiddleware ::
  "process_env \<Rightarrow> 'n GunGraphAdapter \<Rightarrow> string \<Rightarrow> string \<Rightarrow> 'n middleware_req \<Rightarrow> 'n effect list" where
  "publishInMiddleware env adapter msgId diffId req =
     (if req_channel req \<noteq> ''gun/put''
      then (if isAdmin env (req_socket req) then [Next None]
            else [Next (Some ''You aren't allowed to write to this channel'')])
      else Next None #
        (case req_data req of
           None \<Rightarrow> []
         | Some msg \<Rightarrow>
             (case put msg of
                None \<Rightarrow> []
              | Some graphData \<Rightarrow>
                  (case processPut adapter msgId diffId msg of
                     (data, effects) \<Rightarrow>
                       effects
                         @ [SocketEmit \<lparr>packet_channel = ''gun/@'' @ to_string (msg_id msg),
                                         packet_data = data\<rparr>]))))"

section \<open>The handlers registered by setupMiddleware\<close>

text \<open>
  \<open>setupMiddleware\<close> registers \<open>subscribeMiddleware\<close>, \<open>publishInMiddleware\<close> and, on
  every connection, \<open>authenticateLogin\<close> for the event \<open>login\<close>. What a client asks
  of its connection is one of these three; what the outside world answers during the
  request (the clock, the verifier, the adapter, the random ids) is \<open>externals\<close>.
\<close>

datatype 'n client_request =
    Login login_req
  | Subscribe string js_text
  | PublishIn string "'n GunMsg option" js_text

record 'n externals =
  ext_now :: int
  ext_verify :: "login_proof \<Rightarrow> string \<Rightarrow> js_error + bool"
  ext_adapter :: "'n GunGraphAdapter"
  ext_msgId :: string
  ext_diffId :: string

fun handle ::
  "(string \<Rightarrow> jsnum) \<Rightarrow> process_env \<Rightarrow> 'n externals \<Rightarrow> SCServerSocket \<Rightarrow> 'n client_request
     \<Rightarrow> SCServerSocket \<times> 'n effect list" where
  "handle parseInt env ext socket (Login req) =
     authenticateLogin parseInt env (ext_now ext) (ext_verify ext) socket req"
| "handle parseInt env ext socket (Subscribe channel hash) =
     (socket,
      subscribeMiddleware env (ext_adapter ext) (ext_msgId ext)
        \<lparr>req_channel = channel, req_socket = socket, req_data = None, req_hash = hash\<rparr>)"
| "handle parseInt env ext socket (PublishIn channel data hash) =
     (socket,
      publishInMiddleware env (ext_adapter ext) (ext_msgId ext) (ext_diffId ext)
        \<lparr>req_channel = channel, req_socket = socket, req_data = data, req_hash = hash\<rparr>)"

text \<open>A connection's life: its requests in the order they are handled.\<close>

fun run ::
  "(string \<Rightarrow> jsnum) \<Rightarrow> process_env \<Rightarrow> SCServerSocket \<Rightarrow> ('n externals \<times> 'n client_request) list
     \<Rightarrow> SCServerSocket \<times> 'n effect list" where
  "run parseInt env socket [] = (socket, [])"
| "run parseInt env socket ((ext, request) # rest) =
     (case handle parseInt env ext socket request of
        (socket', effects) \<Rightarrow>
          (case run parseInt env socket' rest of
             (socket'', effects') \<Rightarrow> (socket'', effects @ effects')))"

section \<open>Reading a list of effects\<close>

fun is_next :: "'n effect \<Rightarrow> bool" where
  "is_next (Next e) = True"
| "is_next _ = False"

fun is_adapter_call :: "'n effect \<Rightarrow> bool" where
  "is_adapter_call (AdapterPut g) = True"
| "is_adapter_call (AdapterGet s) = True"
| "is_adapter_call _ = False"

fun is_verify_call :: "'n effect \<Rightarrow> bool" where
  "is_verify_call (VerifyCall prf p) = True"
| "is_verify_call _ = False"

fun is_publish :: "'n effect \<Rightarrow> bool" where
  "is_publish (ExchangePublish c m) = True"
| "is_publish _ = False"

fun is_emit :: "'n effect \<Rightarrow> bool" where
  "is_emit (SocketEmit p) = True"
| "is_emit _ = False"

text \<open>A publication on the given channel of the exchange.\<close>

fun on_channel :: "string \<Rightarrow> 'n effect \<Rightarrow> bool" where
  "on_channel c (ExchangePublish c' m) = (c' = c)"
| "on_channel c _ = False"

text \<open>Stand-ins for the external collaborators, for the concrete runs below.\<close>

text \<open>
  A decimal \<open>parseInt\<close> for the concrete runs: leading white space is skipped, one sign is
  read, then the longest run of decimal digits; \<open>NaN\<close> when there is no digit. It is
  the builtin on strings of ASCII characters whose digits denote an integer below \<open>2^53\<close>,
  which is all it is applied to.
\<close>

definition is_white_space :: "char \<Rightarrow> bool" where
  "is_white_space c = (of_char c \<in> {9, 10, 11, 12, 13, 32 :: nat})"

definition is_digit :: "char \<Rightarrow> bool" where
  "is_digit c = (48 \<le> (of_char c :: nat) \<and> (of_char c :: nat) \<le> 57)"

fun digits_value :: "int \<Rightarrow> string \<Rightarrow> int" where
  "digits_value acc [] = acc"
| "digits_value acc (c # cs) = digits_value (acc * 10 + (of_char c - 48)) cs"

definition parseInt10 :: "string \<Rightarrow> jsnum" where
  "parseInt10 str =
     (let s = dropWhile is_white_space str;
          negative = (case s of [] \<Rightarrow> False | c # _ \<Rightarrow> c = CHR ''-'');
          unsigned = (case s of [] \<Rightarrow> [] | c # cs \<Rightarrow> if c = CHR ''-'' \<or> c = CHR ''+'' then cs else s);
          digits = takeWhile is_digit unsigned
      in if digits = [] then NaN
         else Num ((if negative then - 1 else 1) * digits_value 0 digits))"

definition verify_accepts :: "login_proof \<Rightarrow> string \<Rightarrow> js_error + bool" where
  "verify_accepts prf p = Inr True"

definition env_owner :: "string \<Rightarrow> process_env" where
  "env_owner owner = \<lparr>GUN_OWNER_PUB = Some owner, SC_AUTH_MAX_DRIFT = None\<rparr>"

definition adapter_const :: "js_error + nat GunGraphData option \<Rightarrow> nat GunGraphAdapter" where
  "adapter_const result = \<lparr>adapter_get = (\<lambda>soul. Inr None), adapter_put = (\<lambda>graphData. result)\<rparr>"

definition msg_put :: "string \<Rightarrow> 'n GunGraphData \<Rightarrow> 'n GunMsg" where
  "msg_put i g = \<lparr>msg_id = Text i, reply_to = Undefined, put = Some g, err = None, ok = None\<rparr>"

definition world :: "int \<Rightarrow> nat externals" where
  "world now =
     \<lparr>ext_now = now, ext_verify = verify_accepts, ext_adapter = adapter_const (Inr None),
      ext_msgId = ''id1'', ext_diffId = ''id2''\<rparr>"

definition login_with :: "string \<Rightarrow> string \<Rightarrow> login_req" where
  "login_with p m = \<lparr>req_pub = Some p, req_proof = Some \<lparr>proof_m = Text m, proof_s = ''sig''\<rparr>\<rparr>"

section \<open>Properties of publishDiff\<close>

lemma node_channel_inj: "(node_channel a = node_channel b) = (a = b)"
  by (simp add: node_channel_def)

lemma node_channel_not_broadcast:
  "node_channel soul \<noteq> ''gun/put/diff''" "''gun/put/diff'' \<noteq> node_channel soul"
  by (simp_all add: node_channel_def)

lemma node_channel_empty: "(node_channel soul = ''gun/nodes/'') = (soul = [])"
  by (simp add: node_channel_def)

lemma publishDiff_souls_only_publish:
  "filter is_publish (publishDiff_souls mid diff keys) = publishDiff_souls mid diff keys"
  by (induction keys) (auto split: option.splits)

lemma publishDiff_souls_channel_neq:
  "soul \<notin> set keys \<Longrightarrow> filter (on_channel (node_channel soul)) (publishDiff_souls mid diff keys) = []"
  by (induction keys) (auto split: option.splits simp: node_channel_inj)

lemma publishDiff_souls_empty_soul:
  "filter (on_channel (node_channel [])) (publishDiff_souls mid diff keys) = []"
  by (induction keys) (auto split: option.splits simp: node_channel_inj)

lemma publishDiff_souls_channel:
  "distinct keys \<Longrightarrow> soul \<in> set keys \<Longrightarrow> soul \<noteq> [] \<Longrightarrow>
   filter (on_channel (node_channel soul)) (publishDiff_souls mid diff keys) =
     (case diff_at diff soul of None \<Rightarrow> []
      | Some nodeDiff \<Rightarrow> [ExchangePublish (node_channel soul) (soul_msg mid soul nodeDiff)])"
  by (induction keys) (auto split: option.splits simp: publishDiff_souls_channel_neq node_channel_inj)

lemma publishDiff_souls_broadcast:
  "filter (on_channel ''gun/put/diff'') (publishDiff_souls mid diff keys) = []"
  by (induction keys) (auto split: option.splits simp: node_channel_not_broadcast)

lemma publishDiff_souls_length:
  "length (publishDiff_souls mid diff keys) = length (filter (\<lambda>soul. soul \<noteq> [] \<and> diff_at diff soul \<noteq> None) keys)"
  by (induction keys) (auto split: option.splits)

lemma diff_at_Some_map_of:
  "(diff_at diff soul = Some nodeDiff) = (map_of diff soul = Some (Some nodeDiff))"
  by (simp add: diff_at_def split: option.splits)

lemma diff_at_distinct:
  assumes "distinct (map fst diff)"
  shows "(diff_at diff soul = Some nodeDiff) = ((soul, Some nodeDiff) \<in> set diff)"
  using assms by (simp only: diff_at_Some_map_of map_of_eq_Some_iff)

lemma diff_at_None_map_of:
  "(diff_at diff soul = None) = (map_of diff soul = None \<or> map_of diff soul = Some None)"
  by (simp add: diff_at_def split: option.splits)

lemma diff_at_None:
  assumes "distinct (map fst diff)"
  shows "(diff_at diff soul = None) = (soul \<notin> fst ` set diff \<or> (soul, None) \<in> set diff)"
  using assms by (simp only: diff_at_None_map_of map_of_eq_Some_iff map_of_eq_None_iff)

lemma publishDiff_broadcast_last:
  "put msg = Some diff \<Longrightarrow> last (publishDiff msg) = ExchangePublish ''gun/put/diff'' msg"
  by (simp add: publishDiff_def)

lemma publishDiff_broadcast_once:
  "put msg = Some diff \<Longrightarrow>
   filter (on_channel ''gun/put/diff'') (publishDiff msg) = [ExchangePublish ''gun/put/diff'' msg]"
  by (simp add: publishDiff_def publishDiff_souls_broadcast)

lemma publishDiff_soul_channel:
  assumes "put msg = Some diff" and "distinct (map fst diff)"
  shows "filter (on_channel (node_channel soul)) (publishDiff msg) =
     (if soul = [] then []
      else case diff_at diff soul of None \<Rightarrow> []
           | Some nodeDiff \<Rightarrow> [ExchangePublish (node_channel soul) (soul_msg (msg_id msg) soul nodeDiff)])"
proof (cases "soul \<in> set (map fst diff)")
  case True
  then show ?thesis
    using assms
    by (simp add: publishDiff_def publishDiff_souls_channel publishDiff_souls_empty_soul
        node_channel_not_broadcast del: set_map)
next
  case False
  then have "map_of diff soul = None"
    by (simp add: map_of_eq_None_iff)
  then have "diff_at diff soul = None"
    by (simp add: diff_at_def)
  with False show ?thesis
    using assms
    by (simp add: publishDiff_def publishDiff_souls_channel_neq node_channel_not_broadcast del: set_map)
qed

lemma publishDiff_length:
  "put msg = Some diff \<Longrightarrow>
   length (publishDiff msg) =
     length (filter (\<lambda>soul. soul \<noteq> [] \<and> diff_at diff soul \<noteq> None) (map fst diff)) + 1"
  by (simp add: publishDiff_def publishDiff_souls_length)

lemma publishDiff_two_souls:
  "A \<noteq> B \<Longrightarrow> A \<noteq> [] \<Longrightarrow> B \<noteq> [] \<Longrightarrow> put msg = Some [(A, Some deltaA), (B, Some deltaB)] \<Longrightarrow>
   publishDiff msg =
     [ExchangePublish (node_channel A) (soul_msg (msg_id msg) A deltaA),
      ExchangePublish (node_channel B) (soul_msg (msg_id msg) B deltaB),
      ExchangePublish ''gun/put/diff'' msg]"
  by (simp add: publishDiff_def diff_at_def)

lemma diff_at_member:
  assumes "distinct (map fst diff)" and "(soul, v) \<in> set diff"
  shows "diff_at diff soul = v"
proof -
  from assms have "map_of diff soul = Some v" by simp
  then show ?thesis by (cases v) (simp_all add: diff_at_def)
qed

lemma qualifying_souls_count:
  assumes "distinct (map fst diff)"
  shows "length (filter (\<lambda>soul. soul \<noteq> [] \<and> diff_at diff soul \<noteq> None) (map fst diff)) =
         length (filter (\<lambda>(soul, nodeDiff). soul \<noteq> [] \<and> nodeDiff \<noteq> None) diff)"
proof -
  have "filter ((\<lambda>soul. soul \<noteq> [] \<and> diff_at diff soul \<noteq> None) \<circ> fst) diff =
        filter (\<lambda>(soul, nodeDiff). soul \<noteq> [] \<and> nodeDiff \<noteq> None) diff"
    by (rule filter_cong) (auto simp: diff_at_member [OF assms])
  then show ?thesis
    by (simp add: filter_map)
qed

text \<open>
  The loop skips a key that is the empty string (\<open>if (!soul) continue\<close>): a diff whose
  only soul is the empty string, with a delta that is not null, is published on the
  broadcast channel only, and no message goes to a per-soul channel.
\<close>

theorem publishDiff_empty_soul_counterexample:
  "publishDiff \<lparr>msg_id = Text ''id'', reply_to = Undefined, put = Some [([], Some (1::nat))],
                err = None, ok = None\<rparr> =
     [ExchangePublish ''gun/put/diff''
        \<lparr>msg_id = Text ''id'', reply_to = Undefined, put = Some [([], Some 1)],
         err = None, ok = None\<rparr>]"
  by (simp add: publishDiff_def)

text \<open>
  Claim C1, with the guard on the empty soul made explicit. Let \<open>publishDiff\<close> run on a
  message whose \<open>put\<close> is the diff (an object: its keys are distinct). For every soul that
  is not the empty string and whose delta is not null, exactly one message is published on
  that soul's channel \<open>gun/nodes/<soul>\<close>, namely
  \<open>{'#': "<msgId>/<soul>", put: {[soul]: delta}}\<close>; for the empty soul, a soul with a null
  delta and a soul outside the diff nothing is published on its channel. The message itself
  is published exactly once on \<open>gun/put/diff\<close>, unchanged, as the last publication; nothing
  else is published, so the per-soul messages are as many as the qualifying souls. In
  particular a diff \<open>{A: deltaA, B: deltaB}\<close> with non-empty souls and non-null deltas
  gives the message for \<open>A\<close>, the message for \<open>B\<close> and the broadcast, in this order.
\<close>

theorem publishDiff_fanout:
  assumes "put msg = Some diff" and "distinct (map fst diff)"
  shows "(\<forall>soul nodeDiff. soul \<noteq> [] \<and> (soul, Some nodeDiff) \<in> set diff \<longrightarrow>
            filter (on_channel (node_channel soul)) (publishDiff msg) =
              [ExchangePublish (node_channel soul)
                 \<lparr>msg_id = Text (to_string (msg_id msg) @ ''/'' @ soul), reply_to = Undefined,
                  put = Some [(soul, Some nodeDiff)], err = None, ok = None\<rparr>])
       \<and> (\<forall>soul. soul = [] \<or> (soul, None) \<in> set diff \<or> soul \<notin> fst ` set diff \<longrightarrow>
            filter (on_channel (node_channel soul)) (publishDiff msg) = [])
       \<and> filter (on_channel ''gun/put/diff'') (publishDiff msg) = [ExchangePublish ''gun/put/diff'' msg]
       \<and> last (publishDiff msg) = ExchangePublish ''gun/put/diff'' msg
       \<and> filter is_publish (publishDiff msg) = publishDiff msg
       \<and> length (publishDiff msg) =
            length (filter (\<lambda>(soul, nodeDiff). soul \<noteq> [] \<and> nodeDiff \<noteq> None) diff) + 1
       \<and> (\<forall>A B deltaA deltaB.
            diff = [(A, Some deltaA), (B, Some deltaB)] \<and> A \<noteq> [] \<and> B \<noteq> [] \<longrightarrow>
            publishDiff msg =
              [ExchangePublish (node_channel A)
                 \<lparr>msg_id = Text (to_string (msg_id msg) @ ''/'' @ A), reply_to = Undefined,
                  put = Some [(A, Some deltaA)], err = None, ok = None\<rparr>,
               ExchangePublish (node_channel B)
                 \<lparr>msg_id = Text (to_string (msg_id msg) @ ''/'' @ B), reply_to = Undefined,
                  put = Some [(B, Some deltaB)], err = None, ok = None\<rparr>,
               ExchangePublish ''gun/put/diff'' msg])"
proof -
  note per_soul = publishDiff_soul_channel [OF assms]
  have one: "\<forall>soul nodeDiff. soul \<noteq> [] \<and> (soul, Some nodeDiff) \<in> set diff \<longrightarrow>
            filter (on_channel (node_channel soul)) (publishDiff msg) =
              [ExchangePublish (node_channel soul)
                 \<lparr>msg_id = Text (to_string (msg_id msg) @ ''/'' @ soul), reply_to = Undefined,
                  put = Some [(soul, Some nodeDiff)], err = None, ok = None\<rparr>]"
  proof (intro allI impI, elim conjE)
    fix soul :: soul and nodeDiff :: 'a
    assume "soul \<noteq> []" and "(soul, Some nodeDiff) \<in> set diff"
    then show "filter (on_channel (node_channel soul)) (publishDiff msg) =
              [ExchangePublish (node_channel soul)
                 \<lparr>msg_id = Text (to_string (msg_id msg) @ ''/'' @ soul), reply_to = Undefined,
                  put = Some [(soul, Some nodeDiff)], err = None, ok = None\<rparr>]"
      using diff_at_member [OF assms(2), of soul "Some nodeDiff"]
      by (simp add: per_soul soul_msg_def)
  qed
  have none: "\<forall>soul. soul = [] \<or> (soul, None) \<in> set diff \<or> soul \<notin> fst ` set diff \<longrightarrow>
            filter (on_channel (node_channel soul)) (publishDiff msg) = []"
  proof (intro allI impI)
    fix soul :: soul
    assume a: "soul = [] \<or> (soul, None) \<in> set diff \<or> soul \<notin> fst ` set diff"
    show "filter (on_channel (node_channel soul)) (publishDiff msg) = []"
    proof (cases "soul = []")
      case True
      then show ?thesis by (simp add: per_soul)
    next
      case False
      with a have "diff_at diff soul = None"
        by (simp only: diff_at_None [OF assms(2)]) blast
      then show ?thesis by (simp add: per_soul)
    qed
  qed
  have len: "length (publishDiff msg) =
            length (filter (\<lambda>(soul, nodeDiff). soul \<noteq> [] \<and> nodeDiff \<noteq> None) diff) + 1"
    by (simp only: publishDiff_length [OF assms(1)] qualifying_souls_count [OF assms(2)])
  have only: "filter is_publish (publishDiff msg) = publishDiff msg"
    using assms(1) by (simp add: publishDiff_def publishDiff_souls_only_publish)
  have two: "\<forall>A B deltaA deltaB.
            diff = [(A, Some deltaA), (B, Some deltaB)] \<and> A \<noteq> [] \<and> B \<noteq> [] \<longrightarrow>
            publishDiff msg =
              [ExchangePublish (node_channel A)
                 \<lparr>msg_id = Text (to_string (msg_id msg) @ ''/'' @ A), reply_to = Undefined,
                  put = Some [(A, Some deltaA)], err = None, ok = None\<rparr>,
               ExchangePublish (node_channel B)
                 \<lparr>msg_id = Text (to_string (msg_id msg) @ ''/'' @ B), reply_to = Undefined,
                  put = Some [(B, Some deltaB)], err = None, ok = None\<rparr>,
               ExchangePublish ''gun/put/diff'' msg]"
  proof (intro allI impI, elim conjE)
    fix A B :: soul and deltaA deltaB :: 'a
    assume d: "diff = [(A, Some deltaA), (B, Some deltaB)]" and "A \<noteq> []" and "B \<noteq> []"
    moreover from d assms(2) have "A \<noteq> B" by simp
    ultimately show "publishDiff msg =
              [ExchangePublish (node_channel A)
                 \<lparr>msg_id = Text (to_string (msg_id msg) @ ''/'' @ A), reply_to = Undefined,
                  put = Some [(A, Some deltaA)], err = None, ok = None\<rparr>,
               ExchangePublish (node_channel B)
                 \<lparr>msg_id = Text (to_string (msg_id msg) @ ''/'' @ B), reply_to = Undefined,
                  put = Some [(B, Some deltaB)], err = None, ok = None\<rparr>,
               ExchangePublish ''gun/put/diff'' msg]"
      using publishDiff_two_souls [of A B msg deltaA deltaB] assms(1)
      by (simp add: soul_msg_def)
  qed
  from one none publishDiff_broadcast_once [OF assms(1)] publishDiff_broadcast_last [OF assms(1)]
    only len two
  show ?thesis by blast
qed

theorem publishDiff_fanout_witness:
  "put \<lparr>msg_id = Text ''id'', reply_to = Undefined,
         put = Some [(''A'', Some (1::nat)), (''B'', Some 2)], err = None, ok = None\<rparr>
     = Some [(''A'', Some 1), (''B'', Some 2)]
   \<and> distinct (map fst [(''A'', Some (1::nat)), (''B'', Some 2)])
   \<and> publishDiff \<lparr>msg_id = Text ''id'', reply_to = Undefined,
         put = Some [(''A'', Some (1::nat)), (''B'', Some 2)], err = None, ok = None\<rparr> =
       [ExchangePublish ''gun/nodes/A''
          \<lparr>msg_id = Text ''id/A'', reply_to = Undefined, put = Some [(''A'', Some 1)],
           err = None, ok = None\<rparr>,
        ExchangePublish ''gun/nodes/B''
          \<lparr>msg_id = Text ''id/B'', reply_to = Undefined, put = Some [(''B'', Some 2)],
           err = None, ok = None\<rparr>,
        ExchangePublish ''gun/put/diff''
          \<lparr>msg_id = Text ''id'', reply_to = Undefined,
           put = Some [(''A'', Some 1), (''B'', Some 2)], err = None, ok = None\<rparr>]"
proof -
  have h1: "put \<lparr>msg_id = Text ''id'', reply_to = Undefined,
         put = Some [(''A'', Some (1::nat)), (''B'', Some 2)], err = None, ok = None\<rparr>
     = Some [(''A'', Some 1), (''B'', Some 2)]"
    by simp
  have h2: "distinct (map fst [(''A'', Some (1::nat)), (''B'', Some 2)])"
    by simp
  show ?thesis
    using h1 h2 publishDiff_fanout [OF h1 h2]
    by (simp add: node_channel_def to_string_def)
qed

section \<open>Properties of wrapAdapter\<close>

lemma wrapAdapter_put_no_diff:
  assumes "adapter_put adapter graphData = Inr diff" and "diff = None \<or> diff = Some []"
  shows "wrapAdapter_put adapter diffId graphData = (Inr diff, [AdapterPut graphData])"
  using assms by (auto simp: wrapAdapter_put_def)

lemma wrapAdapter_put_diff:
  assumes "adapter_put adapter graphData = Inr (Some diff)" and "diff \<noteq> []"
  shows "wrapAdapter_put adapter diffId graphData =
           (Inr (Some diff),
            AdapterPut graphData #
              publishDiff \<lparr>msg_id = Text diffId, reply_to = Undefined, put = Some diff,
                           err = None, ok = None\<rparr>)"
  using assms by (simp add: wrapAdapter_put_def)

lemma wrapAdapter_put_rejects:
  "adapter_put adapter graphData = Inl e \<Longrightarrow>
   wrapAdapter_put adapter diffId graphData = (Inl e, [AdapterPut graphData])"
  by (simp add: wrapAdapter_put_def)

lemma publishDiff_publishes:
  "put msg = Some diff \<Longrightarrow> filter is_publish (publishDiff msg) \<noteq> []"
  by (simp add: publishDiff_def)

text \<open>
  Claim C2. When the adapter's \<open>put\<close> resolves with a diff that is null or has no key,
  the wrapped \<open>put\<close> does nothing but call the adapter: \<open>publishDiff\<close> is not run, and a
  write request handled by \<open>processPut\<close> and \<open>publishInMiddleware\<close> publishes nothing on
  the exchange, neither on a per-soul channel nor on \<open>gun/put/diff\<close>.
\<close>

theorem empty_diff_no_fanout:
  assumes "adapter_put adapter graphData = Inr diff" and "diff = None \<or> diff = Some []"
    and "put msg = Some graphData" and "req_data req = Some msg"
  shows "wrapAdapter_put adapter diffId graphData = (Inr diff, [AdapterPut graphData])
       \<and> filter is_publish (snd (wrapAdapter_put adapter diffId graphData)) = []
       \<and> filter is_publish (snd (processPut adapter msgId diffId msg)) = []
       \<and> filter is_publish (publishInMiddleware env adapter msgId diffId req) = []"
  using wrapAdapter_put_no_diff [OF assms(1,2), of diffId] assms(3,4)
  by (simp add: publishInMiddleware_def processPut_def)

theorem empty_diff_no_fanout_witness:
  "adapter_put (adapter_const (Inr (Some []))) [(''soulX'', Some 1)] = Inr (Some [])
   \<and> (Some [] = None \<or> Some [] = Some ([] :: nat GunGraphData))
   \<and> put (msg_put ''m1'' [(''soulX'', Some (1::nat))]) = Some [(''soulX'', Some 1)]
   \<and> publishInMiddleware (env_owner ''owner'') (adapter_const (Inr (Some []))) ''ack1'' ''diff1''
        \<lparr>req_channel = ''gun/put'', req_socket = \<lparr>sock_id = ''sock1'', authToken = None\<rparr>,
         req_data = Some (msg_put ''m1'' [(''soulX'', Some 1)]), req_hash = Undefined\<rparr> =
       [Next None, AdapterPut [(''soulX'', Some 1)],
        SocketEmit \<lparr>packet_channel = ''gun/@m1'',
                    packet_data = \<lparr>msg_id = Text ''ack1'', reply_to = Text ''m1'', put = None,
                                   err = None, ok = Some True\<rparr>\<rparr>]
   \<and> filter is_publish
        (publishInMiddleware (env_owner ''owner'') (adapter_const (Inr (Some []))) ''ack1'' ''diff1''
           \<lparr>req_channel = ''gun/put'', req_socket = \<lparr>sock_id = ''sock1'', authToken = None\<rparr>,
            req_data = Some (msg_put ''m1'' [(''soulX'', Some 1)]), req_hash = Undefined\<rparr>) = []"
proof -
  have h1: "adapter_put (adapter_const (Inr (Some []))) [(''soulX'', Some 1)] = Inr (Some [])"
    by (simp add: adapter_const_def)
  have h2: "Some [] = None \<or> Some [] = Some ([] :: nat GunGraphData)"
    by simp
  have h3: "put (msg_put ''m1'' [(''soulX'', Some (1::nat))]) = Some [(''soulX'', Some 1)]"
    by (simp add: msg_put_def)
  have h4: "req_data \<lparr>req_channel = ''gun/put'', req_socket = \<lparr>sock_id = ''sock1'', authToken = None\<rparr>,
         req_data = Some (msg_put ''m1'' [(''soulX'', Some (1::nat))]), req_hash = Undefined\<rparr>
       = Some (msg_put ''m1'' [(''soulX'', Some 1)])"
    by simp
  show ?thesis
    using h1 h2 h3
      empty_diff_no_fanout [OF h1 h2 h3 h4, of "''diff1''" "''ack1''" "env_owner ''owner''"]
    by (simp add: publishInMiddleware_def processPut_def wrapAdapter_put_def msg_put_def
        put_ack_def to_string_def)
qed

section \<open>The subscribe and publish gates\<close>

lemma isAdmin_iff:
  "isAdmin env socket = (\<exists>token. authToken socket = Some token \<and> GUN_OWNER_PUB env = Some (pub token))"
  by (auto simp: isAdmin_def split: option.splits)

lemma strip_nodes_prefix_cases:
  "strip_nodes_prefix (node_channel soul) = soul"
  by (simp add: strip_nodes_prefix_def node_channel_def)

lemma subscribe_nexts:
  "filter is_next (subscribeMiddleware env adapter msgId req) =
     (if (req_channel req = ''gun/put'' \<or> req_channel req = ''gun/get'') \<and> \<not> isAdmin env (req_socket req)
      then [Next (Some (''You aren't allowed to subscribe to '' @ req_channel req))]
      else [Next None])"
  by (simp add: subscribeMiddleware_def readNode_def wrapAdapter_get_def Let_def)

lemma publishDiff_souls_only_next:
  "filter is_next (publishDiff_souls mid diff keys) = []"
  by (induction keys) (auto split: option.splits)

text \<open>
  Claim C3. A subscription to \<open>gun/put\<close> or \<open>gun/get\<close> by a connection that has no
  token, or whose token's public key is not \<open>GUN_OWNER_PUB\<close>, is answered by \<open>next\<close>
  with an error and by nothing else; in every other case (the owner on these two
  channels, and any connection on a per-soul channel or on any other channel) the
  first thing the middleware does is to call \<open>next()\<close> without an error, and it calls
  \<open>next\<close> only once.
\<close>

theorem subscribe_gate:
  "(if (req_channel req = ''gun/put'' \<or> req_channel req = ''gun/get'')
       \<and> \<not> (\<exists>token. authToken (req_socket req) = Some token \<and> GUN_OWNER_PUB env = Some (pub token))
    then subscribeMiddleware env adapter msgId req =
           [Next (Some (''You aren't allowed to subscribe to '' @ req_channel req))]
    else filter is_next (subscribeMiddleware env adapter msgId req) = [Next None]
         \<and> hd (subscribeMiddleware env adapter msgId req) = Next None)"
  by (simp add: subscribeMiddleware_def readNode_def wrapAdapter_get_def Let_def isAdmin_iff)

theorem subscribe_gate_witness:
  "subscribeMiddleware (env_owner ''owner'') (adapter_const (Inr None)) ''seed1''
     \<lparr>req_channel = ''gun/put'', req_socket = \<lparr>sock_id = ''sock1'', authToken = None\<rparr>,
      req_data = None, req_hash = Undefined\<rparr> =
     [Next (Some ''You aren't allowed to subscribe to gun/put'')]
   \<and> filter is_next
       (subscribeMiddleware (env_owner ''owner'') (adapter_const (Inr None)) ''seed1''
          \<lparr>req_channel = ''gun/get'',
           req_socket = \<lparr>sock_id = ''sock1'',
                         authToken = Some \<lparr>pub = ''owner'', timestamp = Num 1700000000000\<rparr>\<rparr>,
           req_data = None, req_hash = Undefined\<rparr>) = [Next None]
   \<and> filter is_next
       (subscribeMiddleware (env_owner ''owner'') (adapter_const (Inr None)) ''seed1''
          \<lparr>req_channel = ''gun/nodes/soulX'', req_socket = \<lparr>sock_id = ''sock1'', authToken = None\<rparr>,
           req_data = None, req_hash = Undefined\<rparr>) = [Next None]"
  using
    subscribe_gate [of "\<lparr>req_channel = ''gun/put'', req_socket = \<lparr>sock_id = ''sock1'', authToken = None\<rparr>,
      req_data = None, req_hash = Undefined\<rparr>" "env_owner ''owner''" "adapter_const (Inr None)" "''seed1''"]
    subscribe_gate [of "\<lparr>req_channel = ''gun/get'',
           req_socket = \<lparr>sock_id = ''sock1'',
                         authToken = Some \<lparr>pub = ''owner'', timestamp = Num 1700000000000\<rparr>\<rparr>,
           req_data = None, req_hash = Undefined\<rparr>" "env_owner ''owner''" "adapter_const (Inr None)" "''seed1''"]
    subscribe_gate [of "\<lparr>req_channel = ''gun/nodes/soulX'', req_socket = \<lparr>sock_id = ''sock1'', authToken = None\<rparr>,
           req_data = None, req_hash = Undefined\<rparr>" "env_owner ''owner''" "adapter_const (Inr None)" "''seed1''"]
  by (simp add: env_owner_def)

text \<open>
  Claim C4. On a channel other than \<open>gun/put\<close> the middleware calls \<open>next()\<close> for the
  owner and \<open>next\<close> with an error for everybody else, and does nothing more: no adapter
  call is made. On \<open>gun/put\<close> it first calls \<open>next()\<close> without an error, whoever the
  connection is, and calls \<open>next\<close> only once.
\<close>

theorem publish_gate:
  "(if req_channel req \<noteq> ''gun/put''
    then publishInMiddleware env adapter msgId diffId req =
           (if \<exists>token. authToken (req_socket req) = Some token \<and> GUN_OWNER_PUB env = Some (pub token)
            then [Next None]
            else [Next (Some ''You aren't allowed to write to this channel'')])
         \<and> filter is_adapter_call (publishInMiddleware env adapter msgId diffId req) = []
    else filter is_next (publishInMiddleware env adapter msgId diffId req) = [Next None]
         \<and> hd (publishInMiddleware env adapter msgId diffId req) = Next None)"
  by (simp add: publishInMiddleware_def processPut_def wrapAdapter_put_def publishDiff_def
      publishDiff_souls_only_next isAdmin_iff split: option.splits sum.splits prod.splits)


theorem publish_gate_witness:
  "publishInMiddleware (env_owner ''owner'') (adapter_const (Inr None)) ''ack1'' ''diff1''
     \<lparr>req_channel = ''gun/get'',
      req_socket = \<lparr>sock_id = ''sock1'',
                    authToken = Some \<lparr>pub = ''mallory'', timestamp = Num 1700000000000\<rparr>\<rparr>,
      req_data = Some (msg_put ''m1'' [(''soulX'', Some 1)]), req_hash = Undefined\<rparr> =
     [Next (Some ''You aren't allowed to write to this channel'')]
   \<and> publishInMiddleware (env_owner ''owner'') (adapter_const (Inr None)) ''ack1'' ''diff1''
     \<lparr>req_channel = ''gun/get'',
      req_socket = \<lparr>sock_id = ''sock1'',
                    authToken = Some \<lparr>pub = ''owner'', timestamp = Num 1700000000000\<rparr>\<rparr>,
      req_data = Some (msg_put ''m1'' [(''soulX'', Some 1)]), req_hash = Undefined\<rparr> =
     [Next None]
   \<and> hd (publishInMiddleware (env_owner ''owner'') (adapter_const (Inr None)) ''ack1'' ''diff1''
     \<lparr>req_channel = ''gun/put'', req_socket = \<lparr>sock_id = ''sock1'', authToken = None\<rparr>,
      req_data = Some (msg_put ''m1'' [(''soulX'', Some 1)]), req_hash = Undefined\<rparr>) = Next None"
  using
    publish_gate [of "\<lparr>req_channel = ''gun/get'',
      req_socket = \<lparr>sock_id = ''sock1'',
                    authToken = Some \<lparr>pub = ''mallory'', timestamp = Num 1700000000000\<rparr>\<rparr>,
      req_data = Some (msg_put ''m1'' [(''soulX'', Some 1)]), req_hash = Undefined\<rparr>"
      "env_owner ''owner''" "adapter_const (Inr None)" "''ack1''" "''diff1''"]
    publish_gate [of "\<lparr>req_channel = ''gun/get'',
      req_socket = \<lparr>sock_id = ''sock1'',
                    authToken = Some \<lparr>pub = ''owner'', timestamp = Num 1700000000000\<rparr>\<rparr>,
      req_data = Some (msg_put ''m1'' [(''soulX'', Some 1)]), req_hash = Undefined\<rparr>"
      "env_owner ''owner''" "adapter_const (Inr None)" "''ack1''" "''diff1''"]
    publish_gate [of "\<lparr>req_channel = ''gun/put'', req_socket = \<lparr>sock_id = ''sock1'', authToken = None\<rparr>,
      req_data = Some (msg_put ''m1'' [(''soulX'', Some 1)]), req_hash = Undefined\<rparr>"
      "env_owner ''owner''" "adapter_const (Inr None)" "''ack1''" "''diff1''"]
  by (simp add: env_owner_def)

section \<open>The acknowledgment of a write\<close>

lemma publishDiff_souls_no_emit:
  "filter is_emit (publishDiff_souls mid diff keys) = []"
  by (induction keys) (auto split: option.splits)

lemma wrapAdapter_put_no_emit:
  "filter is_emit (snd (wrapAdapter_put adapter diffId graphData)) = []"
  by (simp add: wrapAdapter_put_def publishDiff_def publishDiff_souls_no_emit
      split: sum.splits option.splits)

lemma processPut_ack:
  assumes "put msg = Some graphData"
  shows "fst (processPut adapter msgId diffId msg) =
           \<lparr>msg_id = Text msgId, reply_to = msg_id msg, put = None,
            err = (case adapter_put adapter graphData of
                     Inl e \<Rightarrow> Some ''Error saving'' | Inr diff \<Rightarrow> None),
            ok = Some (case adapter_put adapter graphData of Inl e \<Rightarrow> False | Inr diff \<Rightarrow> True)\<rparr>"
  using assms
  by (simp add: processPut_def wrapAdapter_put_def put_ack_def split: sum.splits option.splits)

lemma processPut_effects:
  assumes "put msg = Some graphData"
  shows "snd (processPut adapter msgId diffId msg) = snd (wrapAdapter_put adapter diffId graphData)"
  using assms
  by (simp add: processPut_def split: sum.splits prod.splits)

text \<open>
  Claim C5. A publication on \<open>gun/put\<close> of a message with a \<open>put\<close> emits exactly one
  packet to the socket, after everything else: on channel \<open>gun/@<id of the message>\<close>,
  a message with the fresh id \<open>msgId\<close>, \<open>'@'\<close> the id of the original message, and
  \<open>err: null, ok: true\<close> when the adapter's \<open>put\<close> resolves, \<open>err: 'Error saving',
  ok: false\<close> when it rejects. The value the adapter rejects with is in no field of it.
\<close>

theorem put_acknowledgment:
  assumes "req_channel req = ''gun/put''" and "req_data req = Some msg" and "put msg = Some graphData"
  shows "filter is_emit (publishInMiddleware env adapter msgId diffId req) =
           [SocketEmit
              \<lparr>packet_channel = ''gun/@'' @ to_string (msg_id msg),
               packet_data =
                 \<lparr>msg_id = Text msgId, reply_to = msg_id msg, put = None,
                  err = (case adapter_put adapter graphData of
                           Inl e \<Rightarrow> Some ''Error saving'' | Inr diff \<Rightarrow> None),
                  ok = Some (case adapter_put adapter graphData of
                               Inl e \<Rightarrow> False | Inr diff \<Rightarrow> True)\<rparr>\<rparr>]
       \<and> last (publishInMiddleware env adapter msgId diffId req) =
           SocketEmit
              \<lparr>packet_channel = ''gun/@'' @ to_string (msg_id msg),
               packet_data =
                 \<lparr>msg_id = Text msgId, reply_to = msg_id msg, put = None,
                  err = (case adapter_put adapter graphData of
                           Inl e \<Rightarrow> Some ''Error saving'' | Inr diff \<Rightarrow> None),
                  ok = Some (case adapter_put adapter graphData of
                               Inl e \<Rightarrow> False | Inr diff \<Rightarrow> True)\<rparr>\<rparr>"
proof -
  obtain data effects where p: "processPut adapter msgId diffId msg = (data, effects)"
    by (cases "processPut adapter msgId diffId msg")
  from p processPut_ack [OF assms(3), of adapter msgId diffId]
  have d: "data = \<lparr>msg_id = Text msgId, reply_to = msg_id msg, put = None,
            err = (case adapter_put adapter graphData of
                     Inl e \<Rightarrow> Some ''Error saving'' | Inr diff \<Rightarrow> None),
            ok = Some (case adapter_put adapter graphData of Inl e \<Rightarrow> False | Inr diff \<Rightarrow> True)\<rparr>"
    by simp
  from p processPut_effects [OF assms(3), of adapter msgId diffId]
    wrapAdapter_put_no_emit [of adapter diffId graphData]
  have e: "filter is_emit effects = []"
    by simp
  have "publishInMiddleware env adapter msgId diffId req =
          Next None # effects
            @ [SocketEmit \<lparr>packet_channel = ''gun/@'' @ to_string (msg_id msg), packet_data = data\<rparr>]"
    using assms p by (simp add: publishInMiddleware_def)
  with d e show ?thesis
    by simp
qed

theorem put_acknowledgment_witness:
  "req_channel \<lparr>req_channel = ''gun/put'', req_socket = \<lparr>sock_id = ''sock1'', authToken = None\<rparr>,
         req_data = Some (msg_put ''m1'' [(''soulX'', Some (1::nat))]), req_hash = Undefined\<rparr> = ''gun/put''
   \<and> put (msg_put ''m1'' [(''soulX'', Some (1::nat))]) = Some [(''soulX'', Some 1)]
   \<and> filter is_emit
       (publishInMiddleware (env_owner ''owner'') (adapter_const (Inl ''disk full'')) ''ack1'' ''diff1''
          \<lparr>req_channel = ''gun/put'', req_socket = \<lparr>sock_id = ''sock1'', authToken = None\<rparr>,
           req_data = Some (msg_put ''m1'' [(''soulX'', Some 1)]), req_hash = Undefined\<rparr>) =
       [SocketEmit \<lparr>packet_channel = ''gun/@m1'',
                    packet_data = \<lparr>msg_id = Text ''ack1'', reply_to = Text ''m1'', put = None,
                                   err = Some ''Error saving'', ok = Some False\<rparr>\<rparr>]
   \<and> filter is_emit
       (publishInMiddleware (env_owner ''owner'')
          (adapter_const (Inr (Some [(''soulX'', Some 1)]))) ''ack1'' ''diff1''
          \<lparr>req_channel = ''gun/put'', req_socket = \<lparr>sock_id = ''sock1'', authToken = None\<rparr>,
           req_data = Some (msg_put ''m1'' [(''soulX'', Some 1)]), req_hash = Undefined\<rparr>) =
       [SocketEmit \<lparr>packet_channel = ''gun/@m1'',
                    packet_data = \<lparr>msg_id = Text ''ack1'', reply_to = Text ''m1'', put = None,
                                   err = None, ok = Some True\<rparr>\<rparr>]"
proof -
  have h1: "req_channel \<lparr>req_channel = ''gun/put'', req_socket = \<lparr>sock_id = ''sock1'', authToken = None\<rparr>,
         req_data = Some (msg_put ''m1'' [(''soulX'', Some (1::nat))]), req_hash = Undefined\<rparr> = ''gun/put''"
    by simp
  have h2: "req_data \<lparr>req_channel = ''gun/put'', req_socket = \<lparr>sock_id = ''sock1'', authToken = None\<rparr>,
         req_data = Some (msg_put ''m1'' [(''soulX'', Some (1::nat))]), req_hash = Undefined\<rparr>
       = Some (msg_put ''m1'' [(''soulX'', Some 1)])"
    by simp
  have h3: "put (msg_put ''m1'' [(''soulX'', Some (1::nat))]) = Some [(''soulX'', Some 1)]"
    by (simp add: msg_put_def)
  show ?thesis
    using h1 h3
      put_acknowledgment [OF h1 h2 h3, of "env_owner ''owner''" "adapter_const (Inl ''disk full'')"
        "''ack1''" "''diff1''"]
      put_acknowledgment [OF h1 h2 h3, of "env_owner ''owner''"
        "adapter_const (Inr (Some [(''soulX'', Some 1)]))" "''ack1''" "''diff1''"]
    by (simp add: adapter_const_def msg_put_def to_string_def)
qed

section \<open>Properties of authenticateLogin\<close>

lemma to_string_values:
  "to_string Undefined = ''undefined''" "to_string Null = ''null''" "to_string (Text s) = s"
  by (simp_all add: to_string_def)

lemma split_on_nonempty: "split_on sep s \<noteq> []"
  by (induction s) (auto split: list.splits)

lemma proof_socketId_Text: "\<exists>socketId. proof_socketId m = Text socketId"
  using split_on_nonempty [of "CHR ''/''" m]
  by (simp add: proof_socketId_def element_def)

lemma split_on_first_part:
  "sep \<notin> set a \<Longrightarrow> split_on sep (a @ sep # rest) = a # split_on sep rest"
  by (induction a) auto

lemma split_on_two_parts:
  assumes "sep \<notin> set a" and "sep \<notin> set b"
  shows "split_on sep (a @ sep # b @ sep # rest) = a # b # split_on sep rest"
  using assms by (simp add: split_on_first_part)

lemma proof_parts_ignore_rest:
  assumes "CHR ''/'' \<notin> set a" and "CHR ''/'' \<notin> set b"
  shows "proof_socketId (a @ ''/'' @ b @ ''/'' @ rest) = Text a"
    and "proof_timestamp parseInt (a @ ''/'' @ b @ ''/'' @ rest) = parseInt b"
  using split_on_two_parts [OF assms, of rest]
  by (simp_all add: proof_socketId_def proof_timestamp_def element_def to_string_def)

lemma maxDrift_default: "SC_AUTH_MAX_DRIFT env = None \<Longrightarrow> maxDrift parseInt env = 300000"
  by (simp add: maxDrift_def)

lemma authenticateLogin_missing:
  "req_pub req = None \<or> req_pub req = Some [] \<or> req_proof req = None \<Longrightarrow>
   authenticateLogin parseInt env now verify socket req =
     (socket, [Respond (RespondMessage ''Missing login info'')])"
  by (auto simp: authenticateLogin_def split: option.splits)

lemma authenticateLogin_no_message:
  assumes "req_pub req = Some p" and "p \<noteq> []" and "req_proof req = Some prf"
    and "proof_m prf = Undefined \<or> proof_m prf = Null"
  shows "authenticateLogin parseInt env now verify socket req =
     (socket, [Respond (RespondMessage ''Invalid login'')])"
  using assms by (auto simp: authenticateLogin_def)

lemma authenticateLogin_drift:
  assumes "req_pub req = Some p" and "p \<noteq> []" and "req_proof req = Some prf"
    and "proof_m prf = Text m"
    and "js_greater (abs_diff now (proof_timestamp parseInt m)) (maxDrift parseInt env)"
  shows "authenticateLogin parseInt env now verify socket req =
     (socket, [Respond (RespondError ''Exceeded max clock drift'')])"
  using assms by (simp add: authenticateLogin_def Let_def)

lemma authenticateLogin_mismatch:
  assumes "req_pub req = Some p" and "p \<noteq> []" and "req_proof req = Some prf"
    and "proof_m prf = Text m"
    and "\<not> js_greater (abs_diff now (proof_timestamp parseInt m)) (maxDrift parseInt env)"
    and "proof_socketId m = Text [] \<or> proof_socketId m \<noteq> Text (sock_id socket)"
  shows "authenticateLogin parseInt env now verify socket req =
     (socket, [Respond (RespondError ''Socket ID doesn't match'')])"
  using assms by (auto simp: authenticateLogin_def Let_def)

lemma authenticateLogin_verify:
  assumes "req_pub req = Some p" and "p \<noteq> []" and "req_proof req = Some prf"
    and "proof_m prf = Text m"
    and "\<not> js_greater (abs_diff now (proof_timestamp parseInt m)) (maxDrift parseInt env)"
    and "proof_socketId m = Text (sock_id socket)" and "sock_id socket \<noteq> []"
  shows "authenticateLogin parseInt env now verify socket req =
     (if verify prf p = Inr True
      then (socket\<lparr>authToken := Some \<lparr>pub = p, timestamp = proof_timestamp parseInt m\<rparr>\<rparr>,
            [VerifyCall prf p, SetAuthToken \<lparr>pub = p, timestamp = proof_timestamp parseInt m\<rparr>,
             Respond RespondOk])
      else (socket, [VerifyCall prf p, Respond (RespondMessage ''Invalid login'')]))"
  using assms by (auto simp: authenticateLogin_def Let_def split: sum.splits)

text \<open>
  Claim C6. A login request that carries a public key and a proof whose timestamp \<open>t\<close>
  has \<open>|now - t| > maxDrift\<close> is answered with the error \<open>Exceeded max clock drift\<close>,
  whatever the verifier would say: the verifier is not called and the socket is unchanged.
  \<open>maxDrift\<close> is 300000 when \<open>SC_AUTH_MAX_DRIFT\<close> is not set.
\<close>

theorem clock_drift_exceeded:
  assumes "req_pub req = Some p" and "p \<noteq> []" and "req_proof req = Some prf"
    and "proof_m prf = Text m"
    and "proof_timestamp parseInt m = Num t" and "\<bar>now - t\<bar> > maxDrift parseInt env"
  shows "authenticateLogin parseInt env now verify socket req =
           (socket, [Respond (RespondError ''Exceeded max clock drift'') :: 'n effect])
       \<and> filter is_verify_call
            (snd (authenticateLogin parseInt env now verify socket req
                    :: SCServerSocket \<times> 'n effect list)) = []
       \<and> (SC_AUTH_MAX_DRIFT env = None \<longrightarrow> maxDrift parseInt env = 300000)"
proof -
  from assms(5,6)
  have "js_greater (abs_diff now (proof_timestamp parseInt m)) (maxDrift parseInt env)"
    by (simp add: js_greater_def abs_diff_def)
  from authenticateLogin_drift [OF assms(1-4) this, of verify socket, where ?'a = 'n]
    maxDrift_default [of env parseInt]
  show ?thesis by simp
qed

theorem clock_drift_exceeded_witness:
  "req_pub (login_with ''alice'' ''sock1/1699999000000'') = Some ''alice''
   \<and> ''alice'' \<noteq> []
   \<and> proof_timestamp parseInt10 ''sock1/1699999000000'' = Num 1699999000000
   \<and> \<bar>1700000000000 - 1699999000000\<bar> > maxDrift parseInt10 (env_owner ''owner'')
   \<and> authenticateLogin parseInt10 (env_owner ''owner'') 1700000000000 verify_accepts
        \<lparr>sock_id = ''sock1'', authToken = None\<rparr> (login_with ''alice'' ''sock1/1699999000000'') =
       (\<lparr>sock_id = ''sock1'', authToken = None\<rparr>,
        [Respond (RespondError ''Exceeded max clock drift'') :: nat effect])"
proof -
  have h1: "req_pub (login_with ''alice'' ''sock1/1699999000000'') = Some ''alice''"
    by (simp add: login_with_def)
  have h2: "''alice'' \<noteq> []"
    by simp
  have h3: "req_proof (login_with ''alice'' ''sock1/1699999000000'') =
              Some \<lparr>proof_m = Text ''sock1/1699999000000'', proof_s = ''sig''\<rparr>"
    by (simp add: login_with_def)
  have h4: "proof_m \<lparr>proof_m = Text ''sock1/1699999000000'', proof_s = ''sig''\<rparr> =
              Text ''sock1/1699999000000''"
    by simp
  have h5: "proof_timestamp parseInt10 ''sock1/1699999000000'' = Num 1699999000000"
    by (simp add: proof_timestamp_def element_def to_string_def parseInt10_def
        is_white_space_def is_digit_def)
  have h6: "\<bar>1700000000000 - 1699999000000\<bar> > maxDrift parseInt10 (env_owner ''owner'')"
    by (simp add: maxDrift_def env_owner_def)
  show ?thesis
    using h1 h2 h5 h6
      clock_drift_exceeded [OF h1 h2 h3 h4 h5 h6,
        where verify = verify_accepts and socket = "\<lparr>sock_id = ''sock1'', authToken = None\<rparr>"
          and ?'n = nat]
    by simp
qed

text \<open>
  The guard on the credentials runs before every other check: without a public key the
  answer is \<open>Missing login info\<close>, whatever the proof holds.
\<close>

lemma missing_credentials_checked_first:
  "authenticateLogin parseInt10 (env_owner ''owner'') 1700000000000 verify_accepts
     \<lparr>sock_id = ''sock1'', authToken = None\<rparr>
     \<lparr>req_pub = Some [], req_proof = Some \<lparr>proof_m = Text ''sock1/0'', proof_s = ''sig''\<rparr>\<rparr> =
     (\<lparr>sock_id = ''sock1'', authToken = None\<rparr>,
      [Respond (RespondMessage ''Missing login info'') :: nat effect])"
  by (simp add: authenticateLogin_def)

text \<open>
  The drift is checked before the socket id: a proof that names another connection and has
  a timestamp outside the drift is answered with \<open>Exceeded max clock drift\<close>, not with
  \<open>Socket ID doesn't match\<close>.
\<close>

theorem drift_before_mismatch_counterexample:
  "authenticateLogin parseInt10 (env_owner ''owner'') 1700000000000 verify_accepts
     \<lparr>sock_id = ''sock1'', authToken = None\<rparr>
     \<lparr>req_pub = Some ''alice'', req_proof = Some \<lparr>proof_m = Text ''sock2/0'', proof_s = ''sig''\<rparr>\<rparr> =
     (\<lparr>sock_id = ''sock1'', authToken = None\<rparr>,
      [Respond (RespondError ''Exceeded max clock drift'') :: nat effect])"
  by (simp add: authenticateLogin_def proof_timestamp_def proof_socketId_def element_def
      to_string_def parseInt10_def is_white_space_def is_digit_def js_greater_def abs_diff_def
      maxDrift_def env_owner_def Let_def)

text \<open>
  Claim C7, with the order of the checks made explicit. A login request that carries a
  public key and a proof whose connection identifier is not the id of the socket is
  answered with an error, whatever the verifier would say (it is not called, and the socket
  is unchanged): \<open>Exceeded max clock drift\<close> when the drift check fires, and
  \<open>Socket ID doesn't match\<close> otherwise.
\<close>

theorem connection_mismatch:
  assumes "req_pub req = Some p" and "p \<noteq> []" and "req_proof req = Some prf"
    and "proof_m prf = Text m"
    and "proof_socketId m \<noteq> Text (sock_id socket)"
  shows "authenticateLogin parseInt env now verify socket req =
           (socket,
            [Respond (RespondError
               (if js_greater (abs_diff now (proof_timestamp parseInt m)) (maxDrift parseInt env)
                then ''Exceeded max clock drift'' else ''Socket ID doesn't match'')) :: 'n effect])
       \<and> filter is_verify_call
            (snd (authenticateLogin parseInt env now verify socket req
                    :: SCServerSocket \<times> 'n effect list)) = []"
proof (cases "js_greater (abs_diff now (proof_timestamp parseInt m)) (maxDrift parseInt env)")
  case True
  from authenticateLogin_drift [OF assms(1-4) True, of verify socket, where ?'a = 'n] True
  show ?thesis by simp
next
  case False
  from assms(5)
  have "proof_socketId m = Text [] \<or> proof_socketId m \<noteq> Text (sock_id socket)"
    by simp
  from authenticateLogin_mismatch [OF assms(1-4) False this, of verify, where ?'a = 'n] False
  show ?thesis by simp
qed

theorem connection_mismatch_witness:
  "req_pub (login_with ''alice'' ''sock2/1700000000000'') = Some ''alice''
   \<and> ''alice'' \<noteq> []
   \<and> proof_socketId ''sock2/1700000000000''
       \<noteq> Text (sock_id \<lparr>sock_id = ''sock1'', authToken = None\<rparr>)
   \<and> authenticateLogin parseInt10 (env_owner ''owner'') 1700000000010 verify_accepts
        \<lparr>sock_id = ''sock1'', authToken = None\<rparr> (login_with ''alice'' ''sock2/1700000000000'') =
       (\<lparr>sock_id = ''sock1'', authToken = None\<rparr>,
        [Respond (RespondError ''Socket ID doesn't match'') :: nat effect])"
proof -
  have h1: "req_pub (login_with ''alice'' ''sock2/1700000000000'') = Some ''alice''"
    by (simp add: login_with_def)
  have h2: "''alice'' \<noteq> []"
    by simp
  have h3: "req_proof (login_with ''alice'' ''sock2/1700000000000'') =
              Some \<lparr>proof_m = Text ''sock2/1700000000000'', proof_s = ''sig''\<rparr>"
    by (simp add: login_with_def)
  have h4: "proof_m \<lparr>proof_m = Text ''sock2/1700000000000'', proof_s = ''sig''\<rparr> =
              Text ''sock2/1700000000000''"
    by simp
  have h5: "proof_socketId ''sock2/1700000000000''
       \<noteq> Text (sock_id \<lparr>sock_id = ''sock1'', authToken = None\<rparr>)"
    by (simp add: proof_socketId_def element_def)
  have t: "proof_timestamp parseInt10 ''sock2/1700000000000'' = Num 1700000000000"
    by (simp add: proof_timestamp_def element_def to_string_def parseInt10_def
        is_white_space_def is_digit_def)
  show ?thesis
    using h1 h2 h5
      connection_mismatch [OF h1 h2 h3 h4 h5,
        where parseInt = parseInt10 and env = "env_owner ''owner''" and now = 1700000000010
          and verify = verify_accepts and ?'n = nat]
    by (simp add: t js_greater_def abs_diff_def maxDrift_def env_owner_def)
qed

text \<open>
  The message is never tested for having exactly two parts: the destructuring takes the
  first two and drops the rest. A message with four parts, a timestamp within the drift and
  the socket's own id logs the connection in when the verifier accepts.
\<close>

theorem extra_parts_accepted_counterexample:
  "authenticateLogin parseInt10 (env_owner ''owner'') 1700000000010 verify_accepts
     \<lparr>sock_id = ''sock1'', authToken = None\<rparr>
     \<lparr>req_pub = Some ''alice'',
      req_proof = Some \<lparr>proof_m = Text ''sock1/1700000000000/extra/parts'', proof_s = ''sig''\<rparr>\<rparr> =
     (\<lparr>sock_id = ''sock1'', authToken = Some \<lparr>pub = ''alice'', timestamp = Num 1700000000000\<rparr>\<rparr>,
      [VerifyCall \<lparr>proof_m = Text ''sock1/1700000000000/extra/parts'', proof_s = ''sig''\<rparr> ''alice'',
       SetAuthToken \<lparr>pub = ''alice'', timestamp = Num 1700000000000\<rparr>,
       Respond RespondOk :: nat effect])"
  by (simp add: authenticateLogin_def proof_timestamp_def proof_socketId_def element_def
      to_string_def parseInt10_def is_white_space_def is_digit_def js_greater_def abs_diff_def
      maxDrift_def env_owner_def verify_accepts_def Let_def)

text \<open>
  Claim C8, as the code has it. Let a login request carry a public key and a proof.

  \<^item> When the proof has no message that is a string (the field is missing or \<open>null\<close>),
    the message cannot be split: the answer is \<open>Invalid login\<close>, the verifier is not
    called and the socket is unchanged.
  \<^item> When the message is a string whose connection identifier (the text before the first
    \<open>/\<close>) is empty, the request fails with \<open>Exceeded max clock drift\<close> or with
    \<open>Socket ID doesn't match\<close>; the verifier is not called and the socket is unchanged.
  \<^item> When the message is a string \<open>a/b/rest\<close> whose second part \<open>b\<close> parses to an
    integer \<open>t\<close>, whatever follows the second part is ignored: the request is answered
    as the checks on \<open>a\<close> and \<open>t\<close> decide, so a message of more than two parts is not
    refused for its form.

  Nothing is stated about a message whose timestamp part is missing or is not an integer.
\<close>

theorem malformed_proof:
  assumes "req_pub req = Some p" and "p \<noteq> []" and "req_proof req = Some prf"
  shows "(proof_m prf = Undefined \<or> proof_m prf = Null \<longrightarrow>
            authenticateLogin parseInt env now verify socket req =
              (socket, [Respond (RespondMessage ''Invalid login'') :: 'n effect]))
       \<and> (\<forall>m. proof_m prf = Text m \<and> proof_socketId m = Text [] \<longrightarrow>
            authenticateLogin parseInt env now verify socket req \<in>
              {(socket, [Respond (RespondError ''Exceeded max clock drift'') :: 'n effect]),
               (socket, [Respond (RespondError ''Socket ID doesn't match'')])})
       \<and> (\<forall>a b rest t.
            proof_m prf = Text (a @ ''/'' @ b @ ''/'' @ rest)
              \<and> CHR ''/'' \<notin> set a \<and> CHR ''/'' \<notin> set b \<and> parseInt b = Num t \<longrightarrow>
            authenticateLogin parseInt env now verify socket req =
              (if \<bar>now - t\<bar> > maxDrift parseInt env
               then (socket, [Respond (RespondError ''Exceeded max clock drift'') :: 'n effect])
               else if a = [] \<or> a \<noteq> sock_id socket
               then (socket, [Respond (RespondError ''Socket ID doesn't match'')])
               else if verify prf p = Inr True
               then (socket\<lparr>authToken := Some \<lparr>pub = p, timestamp = Num t\<rparr>\<rparr>,
                     [VerifyCall prf p, SetAuthToken \<lparr>pub = p, timestamp = Num t\<rparr>,
                      Respond RespondOk])
               else (socket, [VerifyCall prf p, Respond (RespondMessage ''Invalid login'')])))"
proof (intro conjI allI impI)
  assume "proof_m prf = Undefined \<or> proof_m prf = Null"
  from authenticateLogin_no_message [OF assms this]
  show "authenticateLogin parseInt env now verify socket req =
          (socket, [Respond (RespondMessage ''Invalid login'') :: 'n effect])" .
next
  fix m
  assume a: "proof_m prf = Text m \<and> proof_socketId m = Text []"
  show "authenticateLogin parseInt env now verify socket req \<in>
              {(socket, [Respond (RespondError ''Exceeded max clock drift'') :: 'n effect]),
               (socket, [Respond (RespondError ''Socket ID doesn't match'')])}"
  proof (cases "js_greater (abs_diff now (proof_timestamp parseInt m)) (maxDrift parseInt env)")
    case True
    from a have m: "proof_m prf = Text m" by simp
    from authenticateLogin_drift [OF assms m True, of verify socket, where ?'a = 'n]
    show ?thesis by simp
  next
    case False
    from a have m: "proof_m prf = Text m" by simp
    from a have "proof_socketId m = Text [] \<or> proof_socketId m \<noteq> Text (sock_id socket)"
      by simp
    from authenticateLogin_mismatch [OF assms m False this, of verify, where ?'a = 'n]
    show ?thesis by simp
  qed
next
  fix a b rest :: string and t :: int
  assume h: "proof_m prf = Text (a @ ''/'' @ b @ ''/'' @ rest)
              \<and> CHR ''/'' \<notin> set a \<and> CHR ''/'' \<notin> set b \<and> parseInt b = Num t"
  let ?m = "a @ ''/'' @ b @ ''/'' @ rest"
  from h have m: "proof_m prf = Text ?m" and na: "CHR ''/'' \<notin> set a" and nb: "CHR ''/'' \<notin> set b"
    and t: "parseInt b = Num t"
    by simp_all
  have sid: "proof_socketId ?m = Text a"
    by (rule proof_parts_ignore_rest(1) [OF na nb])
  have ts: "proof_timestamp parseInt ?m = Num t"
    using proof_parts_ignore_rest(2) [OF na nb, of parseInt rest] t by simp
  have gr: "js_greater (abs_diff now (proof_timestamp parseInt ?m)) (maxDrift parseInt env)
              = (\<bar>now - t\<bar> > maxDrift parseInt env)"
    unfolding ts by (simp add: js_greater_def abs_diff_def)
  show "authenticateLogin parseInt env now verify socket req =
              (if \<bar>now - t\<bar> > maxDrift parseInt env
               then (socket, [Respond (RespondError ''Exceeded max clock drift'') :: 'n effect])
               else if a = [] \<or> a \<noteq> sock_id socket
               then (socket, [Respond (RespondError ''Socket ID doesn't match'')])
               else if verify prf p = Inr True
               then (socket\<lparr>authToken := Some \<lparr>pub = p, timestamp = Num t\<rparr>\<rparr>,
                     [VerifyCall prf p, SetAuthToken \<lparr>pub = p, timestamp = Num t\<rparr>,
                      Respond RespondOk])
               else (socket, [VerifyCall prf p, Respond (RespondMessage ''Invalid login'')]))"
  proof (cases "\<bar>now - t\<bar> > maxDrift parseInt env")
    case True
    with gr have "js_greater (abs_diff now (proof_timestamp parseInt ?m)) (maxDrift parseInt env)"
      by simp
    from authenticateLogin_drift [OF assms m this, of verify socket, where ?'a = 'n] True
    show ?thesis by simp
  next
    case False
    with gr have ng: "\<not> js_greater (abs_diff now (proof_timestamp parseInt ?m)) (maxDrift parseInt env)"
      by simp
    show ?thesis
    proof (cases "a = [] \<or> a \<noteq> sock_id socket")
      case True
      with sid have "proof_socketId ?m = Text [] \<or> proof_socketId ?m \<noteq> Text (sock_id socket)"
        by auto
      from authenticateLogin_mismatch [OF assms m ng this, of verify, where ?'a = 'n] False True
      show ?thesis by simp
    next
      case ok: False
      with sid have "proof_socketId ?m = Text (sock_id socket)" and "sock_id socket \<noteq> []"
        by auto
      from authenticateLogin_verify [OF assms m ng this, of verify, where ?'a = 'n]
      have "authenticateLogin parseInt env now verify socket req =
              (if verify prf p = Inr True
               then (socket\<lparr>authToken := Some \<lparr>pub = p, timestamp = Num t\<rparr>\<rparr>,
                     [VerifyCall prf p, SetAuthToken \<lparr>pub = p, timestamp = Num t\<rparr>,
                      Respond RespondOk :: 'n effect])
               else (socket, [VerifyCall prf p, Respond (RespondMessage ''Invalid login'')]))"
        unfolding ts .
      with False ok show ?thesis by auto
    qed
  qed
qed

theorem malformed_proof_witness:
  "req_pub \<lparr>req_pub = Some ''alice'', req_proof = Some \<lparr>proof_m = Undefined, proof_s = ''sig''\<rparr>\<rparr>
     = Some ''alice''
   \<and> ''alice'' \<noteq> []
   \<and> authenticateLogin parseInt10 (env_owner ''owner'') 1700000000010 verify_accepts
        \<lparr>sock_id = ''sock1'', authToken = None\<rparr>
        \<lparr>req_pub = Some ''alice'', req_proof = Some \<lparr>proof_m = Undefined, proof_s = ''sig''\<rparr>\<rparr> =
       (\<lparr>sock_id = ''sock1'', authToken = None\<rparr>,
        [Respond (RespondMessage ''Invalid login'') :: nat effect])
   \<and> proof_socketId ''/1700000000000'' = Text []
   \<and> authenticateLogin parseInt10 (env_owner ''owner'') 1700000000010 verify_accepts
        \<lparr>sock_id = ''sock1'', authToken = None\<rparr> (login_with ''alice'' ''/1700000000000'') \<in>
       {(\<lparr>sock_id = ''sock1'', authToken = None\<rparr>,
         [Respond (RespondError ''Exceeded max clock drift'') :: nat effect]),
        (\<lparr>sock_id = ''sock1'', authToken = None\<rparr>,
         [Respond (RespondError ''Socket ID doesn't match'')])}
   \<and> CHR ''/'' \<notin> set ''sock2'' \<and> CHR ''/'' \<notin> set ''1700000000000''
   \<and> parseInt10 ''1700000000000'' = Num 1700000000000
   \<and> authenticateLogin parseInt10 (env_owner ''owner'') 1700000000010 verify_accepts
        \<lparr>sock_id = ''sock1'', authToken = None\<rparr>
        (login_with ''alice'' (''sock2'' @ ''/'' @ ''1700000000000'' @ ''/'' @ ''extra/parts'')) =
       (\<lparr>sock_id = ''sock1'', authToken = None\<rparr>,
        [Respond (RespondError ''Socket ID doesn't match'') :: nat effect])"
proof -
  have h1: "req_pub \<lparr>req_pub = Some ''alice'',
                    req_proof = Some \<lparr>proof_m = Undefined, proof_s = ''sig''\<rparr>\<rparr> = Some ''alice''"
    by simp
  have h2: "''alice'' \<noteq> []"
    by simp
  have h3: "req_proof \<lparr>req_pub = Some ''alice'',
                      req_proof = Some \<lparr>proof_m = Undefined, proof_s = ''sig''\<rparr>\<rparr> =
              Some \<lparr>proof_m = Undefined, proof_s = ''sig''\<rparr>"
    by simp
  have k1: "\<And>m. req_pub (login_with ''alice'' m) = Some ''alice''"
    by (simp add: login_with_def)
  have k3: "\<And>m. req_proof (login_with ''alice'' m) = Some \<lparr>proof_m = Text m, proof_s = ''sig''\<rparr>"
    by (simp add: login_with_def)
  have e: "proof_socketId ''/1700000000000'' = Text []"
    by (simp add: proof_socketId_def element_def)
  have s: "CHR ''/'' \<notin> set ''sock2'' \<and> CHR ''/'' \<notin> set ''1700000000000''"
    by simp
  have t: "parseInt10 ''1700000000000'' = Num 1700000000000"
    by (simp add: parseInt10_def is_white_space_def is_digit_def)
  have d: "\<not> \<bar>1700000000010 - 1700000000000\<bar> > maxDrift parseInt10 (env_owner ''owner'')"
    by (simp add: maxDrift_def env_owner_def)
  note inst = malformed_proof [where parseInt = parseInt10 and env = "env_owner ''owner''"
      and now = 1700000000010 and verify = verify_accepts
      and socket = "\<lparr>sock_id = ''sock1'', authToken = None\<rparr>" and ?'n = nat]
  from inst [OF h1 h2 h3]
  have c1: "authenticateLogin parseInt10 (env_owner ''owner'') 1700000000010 verify_accepts
        \<lparr>sock_id = ''sock1'', authToken = None\<rparr>
        \<lparr>req_pub = Some ''alice'', req_proof = Some \<lparr>proof_m = Undefined, proof_s = ''sig''\<rparr>\<rparr> =
       (\<lparr>sock_id = ''sock1'', authToken = None\<rparr>,
        [Respond (RespondMessage ''Invalid login'') :: nat effect])"
    by simp
  from inst [OF k1 h2 k3, of "''/1700000000000''"] e
  have c2: "authenticateLogin parseInt10 (env_owner ''owner'') 1700000000010 verify_accepts
        \<lparr>sock_id = ''sock1'', authToken = None\<rparr> (login_with ''alice'' ''/1700000000000'') \<in>
       {(\<lparr>sock_id = ''sock1'', authToken = None\<rparr>,
         [Respond (RespondError ''Exceeded max clock drift'') :: nat effect]),
        (\<lparr>sock_id = ''sock1'', authToken = None\<rparr>,
         [Respond (RespondError ''Socket ID doesn't match'')])}"
    by simp
  from inst [OF k1 h2 k3, of "''sock2'' @ ''/'' @ ''1700000000000'' @ ''/'' @ ''extra/parts''"]
  have "\<forall>a b rest t.
          ''sock2'' @ ''/'' @ ''1700000000000'' @ ''/'' @ ''extra/parts'' = a @ ''/'' @ b @ ''/'' @ rest
            \<and> CHR ''/'' \<notin> set a \<and> CHR ''/'' \<notin> set b \<and> parseInt10 b = Num t \<longrightarrow>
          authenticateLogin parseInt10 (env_owner ''owner'') 1700000000010 verify_accepts
            \<lparr>sock_id = ''sock1'', authToken = None\<rparr>
            (login_with ''alice'' (''sock2'' @ ''/'' @ ''1700000000000'' @ ''/'' @ ''extra/parts'')) =
            (if \<bar>1700000000010 - t\<bar> > maxDrift parseInt10 (env_owner ''owner'')
             then (\<lparr>sock_id = ''sock1'', authToken = None\<rparr>,
                   [Respond (RespondError ''Exceeded max clock drift'') :: nat effect])
             else if a = [] \<or> a \<noteq> ''sock1''
             then (\<lparr>sock_id = ''sock1'', authToken = None\<rparr>,
                   [Respond (RespondError ''Socket ID doesn't match'')])
             else if verify_accepts \<lparr>proof_m = Text (''sock2'' @ ''/'' @ ''1700000000000'' @ ''/'' @ ''extra/parts''), proof_s = ''sig''\<rparr> ''alice'' = Inr True
             then (\<lparr>sock_id = ''sock1'', authToken = None\<rparr>\<lparr>authToken := Some \<lparr>pub = ''alice'', timestamp = Num t\<rparr>\<rparr>,
                   [VerifyCall \<lparr>proof_m = Text (''sock2'' @ ''/'' @ ''1700000000000'' @ ''/'' @ ''extra/parts''), proof_s = ''sig''\<rparr> ''alice'',
                    SetAuthToken \<lparr>pub = ''alice'', timestamp = Num t\<rparr>,
                    Respond RespondOk])
             else (\<lparr>sock_id = ''sock1'', authToken = None\<rparr>,
                   [VerifyCall \<lparr>proof_m = Text (''sock2'' @ ''/'' @ ''1700000000000'' @ ''/'' @ ''extra/parts''), proof_s = ''sig''\<rparr> ''alice'',
                    Respond (RespondMessage ''Invalid login'')]))"
    by (simp only: simp_thms login_proof.simps js_text.inject SCServerSocket.simps) blast
  from this [rule_format, of "''sock2''" "''1700000000000''" "''extra/parts''" 1700000000000] s t d
  have c3: "authenticateLogin parseInt10 (env_owner ''owner'') 1700000000010 verify_accepts
        \<lparr>sock_id = ''sock1'', authToken = None\<rparr>
        (login_with ''alice'' (''sock2'' @ ''/'' @ ''1700000000000'' @ ''/'' @ ''extra/parts'')) =
       (\<lparr>sock_id = ''sock1'', authToken = None\<rparr>,
        [Respond (RespondError ''Socket ID doesn't match'') :: nat effect])"
    by simp
  from h1 h2 c1 e c2 s t c3 show ?thesis
    by (intro conjI) simp_all
qed

text \<open>
  A timestamp that is \<open>NaN\<close> (the part is missing, or does not start with a digit) is not
  caught by the drift check, since \<open>NaN > maxDrift\<close> is false: the request goes on to the
  check of the socket id and to the verifier.
\<close>

lemma nan_timestamp_passes_drift_check:
  assumes "req_pub req = Some p" and "p \<noteq> []" and "req_proof req = Some prf"
    and "proof_m prf = Text m" and "proof_timestamp parseInt m = NaN"
    and "proof_socketId m = Text (sock_id socket)" and "sock_id socket \<noteq> []"
    and "verify prf p = Inr True"
  shows "authenticateLogin parseInt env now verify socket req =
     (socket\<lparr>authToken := Some \<lparr>pub = p, timestamp = NaN\<rparr>\<rparr>,
      [VerifyCall prf p, SetAuthToken \<lparr>pub = p, timestamp = NaN\<rparr>,
       Respond RespondOk :: 'n effect])"
proof -
  from assms(5)
  have "\<not> js_greater (abs_diff now (proof_timestamp parseInt m)) (maxDrift parseInt env)"
    by (simp add: js_greater_def abs_diff_def)
  from authenticateLogin_verify [OF assms(1-4) this assms(6,7), of verify, where ?'a = 'n]
    assms(5,8)
  show ?thesis by simp
qed

section \<open>The token over the life of a connection\<close>

lemma authenticateLogin_sock_id:
  "sock_id (fst (authenticateLogin parseInt env now verify socket req)) = sock_id socket"
  by (simp add: authenticateLogin_def Let_def split: option.splits sum.splits js_text.splits)

lemma authenticateLogin_unchanged:
  "Respond RespondOk \<notin> set (snd (authenticateLogin parseInt env now verify socket req)) \<Longrightarrow>
   fst (authenticateLogin parseInt env now verify socket req) = socket"
  by (auto simp: authenticateLogin_def Let_def
      split: option.splits sum.splits if_splits js_text.splits)

lemma handle_unchanged:
  "Respond RespondOk \<notin> set (snd (handle parseInt env ext socket request)) \<Longrightarrow>
   fst (handle parseInt env ext socket request) = socket"
  by (cases request) (simp_all add: authenticateLogin_unchanged)

lemma publishDiff_souls_no_respond:
  "Respond r \<notin> set (publishDiff_souls mid diff keys)"
  by (induction keys) (auto split: option.splits)

lemma wrapAdapter_put_no_respond:
  "Respond r \<notin> set (snd (wrapAdapter_put adapter diffId graphData))"
  by (simp add: wrapAdapter_put_def publishDiff_def publishDiff_souls_no_respond
      split: sum.splits option.splits)

lemma processPut_no_respond:
  "Respond r \<notin> set (snd (processPut adapter msgId diffId msg))"
proof (cases "put msg")
  case None
  then show ?thesis by (simp add: processPut_def)
next
  case (Some graphData)
  from processPut_effects [OF Some, of adapter msgId diffId]
    wrapAdapter_put_no_respond [of r adapter diffId graphData]
  show ?thesis by simp
qed

lemma processPut_no_respond_pair:
  "(data, effects) = processPut adapter msgId diffId msg \<Longrightarrow> Respond r \<notin> set effects"
  using processPut_no_respond [of r adapter msgId diffId msg] by (metis snd_conv)

lemma publishInMiddleware_no_respond:
  "Respond r \<notin> set (publishInMiddleware env adapter msgId diffId req)"
  by (auto simp: publishInMiddleware_def split: option.splits prod.splits
      dest: processPut_no_respond_pair)

lemma subscribeMiddleware_no_respond:
  "Respond r \<notin> set (subscribeMiddleware env adapter msgId req)"
  by (simp add: subscribeMiddleware_def readNode_def wrapAdapter_get_def Let_def)

lemma handle_login_ok:
  assumes "Respond RespondOk \<in> set (snd (handle parseInt env ext socket request))"
  shows "\<exists>req p prf m. request = Login req \<and> req_pub req = Some p \<and> req_proof req = Some prf
           \<and> proof_m prf = Text m \<and> ext_verify ext prf p = Inr True
           \<and> fst (handle parseInt env ext socket request) =
               socket\<lparr>authToken := Some \<lparr>pub = p, timestamp = proof_timestamp parseInt m\<rparr>\<rparr>"
proof (cases request)
  case (Login req)
  with assms show ?thesis
    by (auto simp: authenticateLogin_def Let_def
        split: option.splits sum.splits if_splits js_text.splits)
next
  case (Subscribe channel hash)
  with assms subscribeMiddleware_no_respond show ?thesis
    by (metis handle.simps(2) snd_conv)
next
  case (PublishIn channel data hash)
  with assms publishInMiddleware_no_respond show ?thesis
    by (metis handle.simps(3) snd_conv)
qed

lemma run_unchanged:
  "Respond RespondOk \<notin> set (snd (run parseInt env socket requests)) \<Longrightarrow>
   fst (run parseInt env socket requests) = socket"
proof (induction requests arbitrary: socket)
  case Nil
  then show ?case by simp
next
  case (Cons a requests)
  obtain ext request where a: "a = (ext, request)"
    by (cases a)
  obtain socket' effects where h: "handle parseInt env ext socket request = (socket', effects)"
    by (cases "handle parseInt env ext socket request")
  obtain socket'' effects' where r: "run parseInt env socket' requests = (socket'', effects')"
    by (cases "run parseInt env socket' requests")
  from Cons.prems a h r have 1: "Respond RespondOk \<notin> set effects"
    and 2: "Respond RespondOk \<notin> set effects'"
    by simp_all
  from 1 h handle_unchanged [of parseInt env ext socket request] have "socket' = socket"
    by simp
  moreover from 2 r Cons.IH [of socket'] have "socket'' = socket'"
    by simp
  ultimately show ?case
    using a h r by simp
qed

text \<open>
  A second successful login on a connection replaces the token: after \<open>alice\<close> and then
  \<open>bob\<close> have logged in on the same socket, the token holds the key and the timestamp of
  \<open>bob\<close>.
\<close>

theorem second_login_replaces_identity_counterexample:
  "authToken (fst (run parseInt10 (env_owner ''owner'') \<lparr>sock_id = ''sock1'', authToken = None\<rparr>
      [(world 1700000000010, Login (login_with ''alice'' ''sock1/1700000000000''))]))
     = Some \<lparr>pub = ''alice'', timestamp = Num 1700000000000\<rparr>
   \<and> authToken (fst (run parseInt10 (env_owner ''owner'') \<lparr>sock_id = ''sock1'', authToken = None\<rparr>
      [(world 1700000000010, Login (login_with ''alice'' ''sock1/1700000000000'')),
       (world 1700000000030, Login (login_with ''bob'' ''sock1/1700000000020''))]))
     = Some \<lparr>pub = ''bob'', timestamp = Num 1700000000020\<rparr>"
  by (simp add: world_def login_with_def authenticateLogin_def proof_timestamp_def
      proof_socketId_def element_def
      to_string_def parseInt10_def is_white_space_def is_digit_def js_greater_def abs_diff_def
      maxDrift_def env_owner_def verify_accepts_def Let_def)

text \<open>
  Claim C9, as the code has it. The socket, and so its token, is unchanged by every request
  that does not end in a successful login (\<open>respond()\<close> without argument): by a
  subscription, by a publication, by a login that fails, and by any sequence of such
  requests. A request that ends in a successful login is a \<open>login\<close> whose proof the
  verifier accepted, and it sets the token to the public key and the timestamp of that
  request, whatever the token was before.
\<close>

theorem identity_changes_only_by_login:
  "(Respond RespondOk \<notin> set (snd (run parseInt env socket requests)) \<longrightarrow>
      fst (run parseInt env socket requests) = socket)
   \<and> (Respond RespondOk \<notin> set (snd (handle parseInt env ext socket request)) \<longrightarrow>
      fst (handle parseInt env ext socket request) = socket)
   \<and> (Respond RespondOk \<in> set (snd (handle parseInt env ext socket request)) \<longrightarrow>
      (\<exists>req p prf m. request = Login req \<and> req_pub req = Some p \<and> req_proof req = Some prf
           \<and> proof_m prf = Text m \<and> ext_verify ext prf p = Inr True
           \<and> fst (handle parseInt env ext socket request) =
               socket\<lparr>authToken := Some \<lparr>pub = p, timestamp = proof_timestamp parseInt m\<rparr>\<rparr>))"
  using run_unchanged [of parseInt env socket requests]
    handle_unchanged [of parseInt env ext socket request]
    handle_login_ok [of parseInt env ext socket request]
  by blast

theorem identity_changes_only_by_login_witness:
  "Respond RespondOk \<notin> set (snd (run parseInt10 (env_owner ''owner'')
       \<lparr>sock_id = ''sock1'', authToken = Some \<lparr>pub = ''alice'', timestamp = Num 1700000000000\<rparr>\<rparr>
       [(world 1700000000010, Subscribe ''gun/nodes/soulX'' Undefined),
        (world 1700000000020,
         PublishIn ''gun/put'' (Some (msg_put ''m1'' [(''soulX'', Some 1)])) Undefined),
        (world 1700000000030, Login (login_with ''bob'' ''sock2/1700000000020'')),
        (world 1700000000040,
         Login \<lparr>req_pub = Some ''bob'', req_proof = Some \<lparr>proof_m = Null, proof_s = ''sig''\<rparr>\<rparr>)]))
   \<and> fst (run parseInt10 (env_owner ''owner'')
       \<lparr>sock_id = ''sock1'', authToken = Some \<lparr>pub = ''alice'', timestamp = Num 1700000000000\<rparr>\<rparr>
       [(world 1700000000010, Subscribe ''gun/nodes/soulX'' Undefined),
        (world 1700000000020,
         PublishIn ''gun/put'' (Some (msg_put ''m1'' [(''soulX'', Some 1)])) Undefined),
        (world 1700000000030, Login (login_with ''bob'' ''sock2/1700000000020'')),
        (world 1700000000040,
         Login \<lparr>req_pub = Some ''bob'', req_proof = Some \<lparr>proof_m = Null, proof_s = ''sig''\<rparr>\<rparr>)])
     = \<lparr>sock_id = ''sock1'', authToken = Some \<lparr>pub = ''alice'', timestamp = Num 1700000000000\<rparr>\<rparr>"
proof -
  have h: "Respond RespondOk \<notin> set (snd (run parseInt10 (env_owner ''owner'')
       \<lparr>sock_id = ''sock1'', authToken = Some \<lparr>pub = ''alice'', timestamp = Num 1700000000000\<rparr>\<rparr>
       [(world 1700000000010, Subscribe ''gun/nodes/soulX'' Undefined),
        (world 1700000000020,
         PublishIn ''gun/put'' (Some (msg_put ''m1'' [(''soulX'', Some 1)])) Undefined),
        (world 1700000000030, Login (login_with ''bob'' ''sock2/1700000000020'')),
        (world 1700000000040,
         Login \<lparr>req_pub = Some ''bob'', req_proof = Some \<lparr>proof_m = Null, proof_s = ''sig''\<rparr>\<rparr>)]))"
    by (simp add: world_def login_with_def authenticateLogin_def proof_timestamp_def
      proof_socketId_def element_def msg_put_def adapter_const_def
      subscribeMiddleware_def publishInMiddleware_def processPut_def wrapAdapter_put_def
      readNode_def wrapAdapter_get_def strip_nodes_prefix_def isAdmin_def
      to_string_def parseInt10_def is_white_space_def is_digit_def js_greater_def abs_diff_def
      maxDrift_def env_owner_def verify_accepts_def Let_def)
  from h identity_changes_only_by_login [of parseInt10 "env_owner ''owner''"
       "\<lparr>sock_id = ''sock1'', authToken = Some \<lparr>pub = ''alice'', timestamp = Num 1700000000000\<rparr>\<rparr>"
       "[(world 1700000000010, Subscribe ''gun/nodes/soulX'' Undefined),
        (world 1700000000020,
         PublishIn ''gun/put'' (Some (msg_put ''m1'' [(''soulX'', Some 1)])) Undefined),
        (world 1700000000030, Login (login_with ''bob'' ''sock2/1700000000020'')),
        (world 1700000000040,
         Login \<lparr>req_pub = Some ''bob'', req_proof = Some \<lparr>proof_m = Null, proof_s = ''sig''\<rparr>\<rparr>)]"]
  show ?thesis by blast
qed

section \<open>The seed of a per-soul subscription\<close>

lemma node_channel_not_privileged:
  "node_channel soul \<noteq> ''gun/put''" "node_channel soul \<noteq> ''gun/get''"
  by (simp_all add: node_channel_def)

lemma node_channel_not_soul: "soul \<noteq> node_channel soul"
proof
  assume "soul = node_channel soul"
  then have "length soul = length (node_channel soul)" by simp
  then show False by (simp add: node_channel_def)
qed

text \<open>
  What an allowed subscription to a per-soul channel does, in program order: it calls
  \<open>next()\<close>, starts the read of the node, and hands the emission of the seed to a timer
  of 25 milliseconds. When the transport completes the subscription is not an event of
  this program.
\<close>

lemma subscribe_seed_effects:
  assumes "req_channel req = node_channel soul" and "soul \<noteq> []"
  shows "subscribeMiddleware env adapter msgId req =
           [Next None, AdapterGet soul,
            SetTimeout 25
              (SocketEmit \<lparr>packet_channel = node_channel soul,
                           packet_data = seed_msg msgId soul (req_hash req) (adapter_get adapter soul)\<rparr>)]"
  using assms node_channel_not_soul [of soul]
  by (simp add: subscribeMiddleware_def node_channel_not_privileged strip_nodes_prefix_cases
      readNode_def wrapAdapter_get_def)

end
